theory Spec2Isabelle
  imports Complex_Main "HOL-Library.Multiset"
begin

section \<open>Data model: frames, cells, exceptions, the object store\<close>

text \<open>
  \<^verbatim>\<open>src/funciones.py\<close> is a set of helpers over pandas frames. A frame is modelled as
  its row index (the row labels, in order) and its columns in order, each a name with
  one cell per row. A cell is a number, a text value or the missing marker (NaN).
  Numbers are mathematical reals: rounding of binary floating point is outside the model.
\<close>

datatype cell = is_Num: Num (num_val: real) | is_Txt: Txt (txt_val: string) | is_Missing: Missing

type_synonym column = "cell list"

record table =
  idx :: "nat list"
  cols :: "(string \<times> column) list"

text \<open>
  The exceptions the helpers and the library calls under them raise. \<open>KeyError\<close> carries
  the literal prefix of its message and the column labels the message names.
\<close>

datatype py_exception =
    KeyError string "string list"
  | TypeError
  | ValueError
  | FileNotFoundError string
  | OtherError string

text \<open>
  Frames are objects: a helper receives a reference, and \<^verbatim>\<open>df[col] = ...\<close> writes through
  it. The store holds every frame allocated so far; a reference is a position in it.
\<close>

type_synonym ref = nat
type_synonym store = "table list"

definition col_names :: "table \<Rightarrow> string list" where
  "col_names t = map fst (cols t)"

definition aligned :: "table \<Rightarrow> bool" where
  "aligned t = list_all (\<lambda>(n, c). length c = length (idx t)) (cols t)"

subsection \<open>The pandas and numpy operations the helpers call\<close>

text \<open>\<^verbatim>\<open>df[col]\<close>: the column, or KeyError naming the label.\<close>

definition get_col :: "table \<Rightarrow> string \<Rightarrow> py_exception + column" where
  "get_col t c = (case map_of (cols t) c of
                    None \<Rightarrow> Inl (KeyError [] [c])
                  | Some v \<Rightarrow> Inr v)"

text \<open>
  \<^verbatim>\<open>df[col] = v\<close> for an array \<open>v\<close> of the frame's own length: an existing column is
  replaced where it stands, a new one is appended as the last column.
\<close>

definition set_col :: "string \<Rightarrow> column \<Rightarrow> table \<Rightarrow> table" where
  "set_col c v t =
     (if c \<in> set (col_names t)
      then t\<lparr>cols := map (\<lambda>(n, w). if n = c then (n, v) else (n, w)) (cols t)\<rparr>
      else t\<lparr>cols := cols t @ [(c, v)]\<rparr>)"

text \<open>
  \<^verbatim>\<open>df[col] < 0\<close> and its siblings: an element-wise comparison with a number. A missing
  cell compares false; a text cell raises TypeError.
\<close>

definition cell_test :: "(real \<Rightarrow> bool) \<Rightarrow> cell \<Rightarrow> bool" where
  "cell_test p v = (case v of Num x \<Rightarrow> p x | _ \<Rightarrow> False)"

definition cmp_col :: "(real \<Rightarrow> bool) \<Rightarrow> column \<Rightarrow> py_exception + bool list" where
  "cmp_col p c = (if list_ex is_Txt c then Inl TypeError else Inr (map (cell_test p) c))"

text \<open>\<^verbatim>\<open>np.where(msk, a, b)\<close> on arrays of one length.\<close>

definition np_where :: "bool list \<Rightarrow> 'a list \<Rightarrow> 'a list \<Rightarrow> 'a list" where
  "np_where msk a b = map (\<lambda>(p, x, y). if p then x else y) (zip msk (zip a b))"

text \<open>A scalar argument of \<^verbatim>\<open>np.where\<close> is broadcast to the length of the mask.\<close>

definition broadcast :: "'b list \<Rightarrow> 'a \<Rightarrow> 'a list" where
  "broadcast msk v = replicate (length msk) v"

text \<open>
  The median of a list of numbers: the middle one of the sorted list, or the mean of the
  two middle ones; none for the empty list.
\<close>

definition median :: "real list \<Rightarrow> real option" where
  "median xs =
     (let ys = sort xs; n = length ys in
      if n = 0 then None
      else if odd n then Some (ys ! (n div 2))
      else Some ((ys ! (n div 2 - 1) + ys ! (n div 2)) / 2))"

text \<open>
  \<^verbatim>\<open>df[col].median(skipna=True)\<close>: the median of the non-missing cells (every one of them,
  negative or not), NaN when there is none; TypeError on a text cell.
\<close>

definition median_cell :: "column \<Rightarrow> cell" where
  "median_cell c = (case median (map num_val (filter is_Num c)) of
                      None \<Rightarrow> Missing
                    | Some m \<Rightarrow> Num m)"

definition col_median :: "column \<Rightarrow> py_exception + cell" where
  "col_median c = (if list_ex is_Txt c then Inl TypeError else Inr (median_cell c))"

text \<open>
  The loop \<^verbatim>\<open>for col in columnas: <body>\<close> of a helper that writes into the frame behind
  \<open>df\<close>. The body reads and writes that frame only. An exception leaves the loop at once:
  the store keeps what the earlier iterations wrote.
\<close>

fun for_cols ::
  "(table \<Rightarrow> string \<Rightarrow> py_exception + table) \<Rightarrow> store \<Rightarrow> ref \<Rightarrow> string list
     \<Rightarrow> store \<times> (py_exception + ref)" where
  "for_cols body s df [] = (s, Inr df)"
| "for_cols body s df (col # columnas) =
     (case body (s ! df) col of
        Inl e \<Rightarrow> (s, Inl e)
      | Inr t' \<Rightarrow> for_cols body (s[df := t']) df columnas)"

text \<open>\<^verbatim>\<open>df.copy()\<close>: a new frame with the same content, at a fresh reference.\<close>

definition copy_frame :: "store \<Rightarrow> ref \<Rightarrow> store \<times> ref" where
  "copy_frame s df = (s @ [s ! df], length s)"

section \<open>reemplazar\_negativos\_por\_mediana\<close>

text \<open>
  Lines 79-80, the body of the loop:
  \<^verbatim>\<open>mediana = df[col].median(skipna=True)\<close>,
  \<^verbatim>\<open>df[col] = np.where(df[col] < 0, mediana, df[col])\<close>.
\<close>

definition reemplazar_negativos_col :: "table \<Rightarrow> string \<Rightarrow> py_exception + table" where
  "reemplazar_negativos_col t col =
     (case get_col t col of
        Inl e \<Rightarrow> Inl e
      | Inr c \<Rightarrow>
          (case col_median c of
             Inl e \<Rightarrow> Inl e
           | Inr mediana \<Rightarrow>
               (case cmp_col (\<lambda>x. x < 0) c of
                  Inl e \<Rightarrow> Inl e
                | Inr msk \<Rightarrow> Inr (set_col col (np_where msk (broadcast msk mediana) c) t))))"

definition reemplazar_negativos_por_mediana ::
  "store \<Rightarrow> ref \<Rightarrow> string list \<Rightarrow> store \<times> (py_exception + ref)" where
  "reemplazar_negativos_por_mediana s df columnas =
     for_cols reemplazar_negativos_col s df columnas"

section \<open>seleccion\_variables\<close>

text \<open>The default of \<^verbatim>\<open>lista_vars\<close> (lines 5-8).\<close>

definition variables :: "string list" where
  "variables = [''A'', ''B'', ''C'', ''D'', ''E'', ''H'', ''J'', ''M'',
                ''N'', ''O'', ''P'', ''Q'', ''R'', ''S'', ''Monto'']"

text \<open>\<^verbatim>\<open>Series.unique()\<close>: the distinct values in order of first appearance.\<close>

definition unique :: "'a list \<Rightarrow> 'a list" where
  "unique xs = rev (remdups (rev xs))"

text \<open>
  \<^verbatim>\<open>df[lista]\<close> with a list of labels: a new frame over the same rows, holding the named
  columns in the order of the list. When a label is not a column the call raises KeyError:
  its message lists the whole request when no label was found, and otherwise the distinct
  labels that were not found.
\<close>

definition select_cols :: "table \<Rightarrow> string list \<Rightarrow> py_exception + table" where
  "select_cols t lista =
     (let missing = filter (\<lambda>k. k \<notin> set (col_names t)) lista in
      if missing = [] then
        Inr (t\<lparr>cols := concat (map (\<lambda>k. filter (\<lambda>(n, c). n = k) (cols t)) lista)\<rparr>)
      else if filter (\<lambda>k. k \<in> set (col_names t)) lista = [] then Inl (KeyError [] lista)
      else Inl (KeyError [] (unique missing)))"

text \<open>
  Lines 28-32. The handler re-raises a KeyError whose message is the literal prefix
  followed by the text of the caught one; any other exception passes through.
\<close>

definition seleccion_variables ::
  "store \<Rightarrow> ref \<Rightarrow> string list \<Rightarrow> store \<times> (py_exception + ref)" where
  "seleccion_variables s df lista_vars =
     (case select_cols (s ! df) lista_vars of
        Inr t' \<Rightarrow> (s @ [t'], Inr (length s))
      | Inl (KeyError p ks) \<Rightarrow>
          (s, Inl (KeyError (''Al menos un campo no pertenece al conjunto de variables: '' @ p) ks))
      | Inl e \<Rightarrow> (s, Inl e))"

section \<open>limpiar\_y\_convertir\<close>

text \<open>\<^verbatim>\<open>.str.replace(',', '', regex=False)\<close>.\<close>

definition remove_commas :: "string \<Rightarrow> string" where
  "remove_commas str = filter (\<lambda>ch. ch \<noteq> CHR '','') str"

text \<open>
  \<^verbatim>\<open>.str.strip()\<close>: whitespace off both ends. A character is a code point below 256;
  the whitespace ones are tab to carriage return, the four separators 0x1C to 0x1F, the
  space, the next-line control 0x85 and the no-break space 0xA0.
\<close>

definition is_space :: "char \<Rightarrow> bool" where
  "is_space ch =
     (let n = (of_char ch :: nat) in
      (9 \<le> n \<and> n \<le> 13) \<or> (28 \<le> n \<and> n \<le> 32) \<or> n = 133 \<or> n = 160)"

definition strip :: "string \<Rightarrow> string" where
  "strip str = rev (dropWhile is_space (rev (dropWhile is_space str)))"

text \<open>
  \<^verbatim>\<open>.astype(str)\<close> on one cell. How Python prints a float is the library's business:
  \<open>float_repr\<close> is a parameter of the model.
\<close>

definition astype_str :: "(real \<Rightarrow> string) \<Rightarrow> cell \<Rightarrow> string" where
  "astype_str float_repr v = (case v of Num x \<Rightarrow> float_repr x | Txt str \<Rightarrow> str | Missing \<Rightarrow> ''nan'')"

text \<open>
  \<^verbatim>\<open>pd.to_numeric(..., errors='coerce')\<close> on one cell: a text that does not parse becomes
  the missing marker, and nothing is raised. Which texts parse, and to what, is the
  library's business: \<open>parse_float\<close> is a parameter of the model.
\<close>

definition to_numeric :: "(string \<Rightarrow> real option) \<Rightarrow> cell \<Rightarrow> cell" where
  "to_numeric parse_float v =
     (case v of
        Txt str \<Rightarrow> (case parse_float str of Some x \<Rightarrow> Num x | None \<Rightarrow> Missing)
      | Num x \<Rightarrow> Num x
      | Missing \<Rightarrow> Missing)"

text \<open>Lines 53-59, the body of the loop: two assignments to \<^verbatim>\<open>df[col]\<close>.\<close>

definition limpiar_col ::
  "(real \<Rightarrow> string) \<Rightarrow> (string \<Rightarrow> real option) \<Rightarrow> table \<Rightarrow> string \<Rightarrow> py_exception + table" where
  "limpiar_col float_repr parse_float t col =
     (case get_col t col of
        Inl e \<Rightarrow> Inl e
      | Inr c \<Rightarrow>
          (let t1 = set_col col (map (\<lambda>v. Txt (strip (remove_commas (astype_str float_repr v)))) c) t in
           case get_col t1 col of
             Inl e \<Rightarrow> Inl e
           | Inr c1 \<Rightarrow> Inr (set_col col (map (to_numeric parse_float) c1) t1)))"

definition limpiar_y_convertir ::
  "(real \<Rightarrow> string) \<Rightarrow> (string \<Rightarrow> real option) \<Rightarrow> store \<Rightarrow> ref \<Rightarrow> string list
     \<Rightarrow> store \<times> (py_exception + ref)" where
  "limpiar_y_convertir float_repr parse_float s df columnas =
     for_cols (limpiar_col float_repr parse_float) s df columnas"

section \<open>imputar\_nulos\_por\_mediana\<close>

text \<open>\<^verbatim>\<open>Series.fillna(value)\<close>.\<close>

definition fillna :: "cell \<Rightarrow> column \<Rightarrow> column" where
  "fillna value c = map (\<lambda>v. if v = Missing then value else v) c"

text \<open>Lines 101-102, the body of the loop.\<close>

definition imputar_nulos_col :: "table \<Rightarrow> string \<Rightarrow> py_exception + table" where
  "imputar_nulos_col t col =
     (case get_col t col of
        Inl e \<Rightarrow> Inl e
      | Inr c \<Rightarrow>
          (case col_median c of
             Inl e \<Rightarrow> Inl e
           | Inr mediana \<Rightarrow> Inr (set_col col (fillna mediana c) t)))"

definition imputar_nulos_por_mediana ::
  "store \<Rightarrow> ref \<Rightarrow> string list \<Rightarrow> store \<times> (py_exception + ref)" where
  "imputar_nulos_por_mediana s df columnas = for_cols imputar_nulos_col s df columnas"

section \<open>dummificar\_var\_categorica\<close>

text \<open>The default of \<^verbatim>\<open>referencia\<close>.\<close>

definition referencia_default :: string where
  "referencia_default = ''OTROS''"

text \<open>
  Line 133, \<^verbatim>\<open>np.where(df[columna].isin(categorias_principales), df[columna], 'OTROS')\<close>:
  the values of the grouped column. The list holds texts, so a number or a missing cell
  is not in it. The label written is the literal \<^verbatim>\<open>'OTROS'\<close>; \<^verbatim>\<open>referencia\<close> is not read here.
\<close>

definition agrupar :: "string list \<Rightarrow> column \<Rightarrow> string list" where
  "agrupar categorias_principales c =
     map (\<lambda>v. case v of
                 Txt cat \<Rightarrow> if cat \<in> set categorias_principales then cat else ''OTROS''
               | _ \<Rightarrow> ''OTROS'') c"

text \<open>Line 138, the body of the loop over the categories.\<close>

definition dummy_col :: "string \<Rightarrow> table \<Rightarrow> string \<Rightarrow> py_exception + table" where
  "dummy_col columna t cat =
     (case get_col t columna of
        Inl e \<Rightarrow> Inl e
      | Inr c \<Rightarrow>
          (let msk = map (\<lambda>v. v = Txt cat) c in
           Inr (set_col (columna @ ''_'' @ cat)
                  (np_where msk (broadcast msk (Num 1)) (broadcast msk (Num 0))) t)))"

text \<open>\<^verbatim>\<open>df.drop(columns=columna)\<close>: a new frame without the column; KeyError when absent.\<close>

definition drop_col :: "string \<Rightarrow> table \<Rightarrow> py_exception + table" where
  "drop_col columna t =
     (if columna \<in> set (col_names t)
      then Inr (t\<lparr>cols := filter (\<lambda>(n, c). n \<noteq> columna) (cols t)\<rparr>)
      else Inl (KeyError [] [columna]))"

text \<open>
  Lines 130-143. \<open>df0\<close> is the caller's frame, \<open>df\<close> the local name after line 130. The
  categories of line 136 are the distinct values of the column just written.
\<close>

definition dummificar_var_categorica ::
  "store \<Rightarrow> ref \<Rightarrow> string \<Rightarrow> string list \<Rightarrow> string \<Rightarrow> store \<times> (py_exception + ref)" where
  "dummificar_var_categorica s df0 columna categorias_principales referencia =
     (let (s1, df) = copy_frame s df0 in
      case get_col (s1 ! df) columna of
        Inl e \<Rightarrow> (s1, Inl e)
      | Inr c \<Rightarrow>
          (let agrupada = agrupar categorias_principales c;
               s2 = s1[df := set_col columna (map Txt agrupada) (s1 ! df)];
               categorias = filter (\<lambda>cat. cat \<noteq> referencia) (unique agrupada)
           in case for_cols (dummy_col columna) s2 df categorias of
                (s3, Inl e) \<Rightarrow> (s3, Inl e)
              | (s3, Inr _) \<Rightarrow>
                  (case drop_col columna (s3 ! df) of
                     Inl e \<Rightarrow> (s3, Inl e)
                   | Inr t' \<Rightarrow> (s3 @ [t'], Inr (length s3)))))"

section \<open>binarizar\_variables\<close>

text \<open>
  Lines 171-172 and 176-177, the body of either loop, \<open>corte\<close> being 0 or 1: a label
  that is not a column is skipped.
\<close>

definition binarizar_col :: "real \<Rightarrow> table \<Rightarrow> string \<Rightarrow> py_exception + table" where
  "binarizar_col corte t col =
     (if col \<in> set (col_names t) then
        (case get_col t col of
           Inl e \<Rightarrow> Inl e
         | Inr c \<Rightarrow>
             (case cmp_col (\<lambda>x. x > corte) c of
                Inl e \<Rightarrow> Inl e
              | Inr msk \<Rightarrow>
                  Inr (set_col col (np_where msk (broadcast msk (Num 1)) (broadcast msk (Num 0))) t)))
      else Inr t)"

definition binarizar_variables ::
  "store \<Rightarrow> ref \<Rightarrow> string list \<Rightarrow> string list \<Rightarrow> store \<times> (py_exception + ref)" where
  "binarizar_variables s df0 vars_corte_0 vars_corte_1 =
     (let (s1, df) = copy_frame s df0 in
      case for_cols (binarizar_col 0) s1 df vars_corte_0 of
        (s2, Inl e) \<Rightarrow> (s2, Inl e)
      | (s2, Inr _) \<Rightarrow> for_cols (binarizar_col 1) s2 df vars_corte_1)"

section \<open>transformacion\_raiz\_cuadrada\<close>

text \<open>\<^verbatim>\<open>np.sqrt\<close> on a column: NaN for a negative number, TypeError on a text cell.\<close>

definition np_sqrt :: "column \<Rightarrow> py_exception + column" where
  "np_sqrt c =
     (if list_ex is_Txt c then Inl TypeError
      else Inr (map (\<lambda>v. case v of Num x \<Rightarrow> if x \<ge> 0 then Num (sqrt x) else Missing
                               | _ \<Rightarrow> Missing) c))"

text \<open>Line 201, the body of the loop.\<close>

definition raiz_col :: "table \<Rightarrow> string \<Rightarrow> py_exception + table" where
  "raiz_col t col =
     (case get_col t col of
        Inl e \<Rightarrow> Inl e
      | Inr c \<Rightarrow>
          (case cmp_col (\<lambda>x. x \<ge> 0) c of
             Inl e \<Rightarrow> Inl e
           | Inr msk \<Rightarrow>
               (case np_sqrt c of
                  Inl e \<Rightarrow> Inl e
                | Inr raices \<Rightarrow> Inr (set_col col (np_where msk raices (broadcast msk Missing)) t))))"

definition transformacion_raiz_cuadrada ::
  "store \<Rightarrow> ref \<Rightarrow> string list \<Rightarrow> store \<times> (py_exception + ref)" where
  "transformacion_raiz_cuadrada s df0 variables_raiz =
     (let (s1, df) = copy_frame s df0 in for_cols raiz_col s1 df variables_raiz)"

section \<open>cargar\_modelo and ejecutar\_modelo\<close>

text \<open>What the two helpers print, one constructor per \<^verbatim>\<open>print\<close> call (lines 219-260).\<close>

datatype log_line =
    ModeloCargado string
  | ArchivoNoEncontrado string
  | ErrorAlCargar py_exception
  | PrediccionesGeneradas real
  | ErrorAlEjecutar py_exception

text \<open>
  Lines 217-224. \<^verbatim>\<open>joblib.load\<close> is a parameter: a path gives a model or raises. Both
  handlers print and fall off the end of the function, which then returns \<^verbatim>\<open>None\<close>.
  The result is the printed lines and what the call gives its caller: \<open>Inl\<close> would be an
  exception leaving the function.
\<close>

definition cargar_modelo ::
  "(string \<Rightarrow> py_exception + 'm) \<Rightarrow> string \<Rightarrow> log_line list \<times> (py_exception + 'm option)" where
  "cargar_modelo joblib_load ruta_modelo =
     (case joblib_load ruta_modelo of
        Inr modelo \<Rightarrow> ([ModeloCargado ruta_modelo], Inr (Some modelo))
      | Inl (FileNotFoundError _) \<Rightarrow> ([ArchivoNoEncontrado ruta_modelo], Inr None)
      | Inl e \<Rightarrow> ([ErrorAlCargar e], Inr None))"

text \<open>The default of \<^verbatim>\<open>umbral\<close>.\<close>

definition umbral_default :: real where
  "umbral_default = 565 / 1000"

text \<open>
  \<^verbatim>\<open>df[name] = v\<close> for an array whose length the frame does not fix. A length other
  than the number of rows raises ValueError, unless the frame has no row at all: then the
  frame takes its rows from the array, and the columns it had are filled with NaN.
\<close>

definition assign_array :: "string \<Rightarrow> column \<Rightarrow> table \<Rightarrow> py_exception + table" where
  "assign_array c v t =
     (if length v = length (idx t) then Inr (set_col c v t)
      else if idx t = [] then
        Inr (set_col c v
               \<lparr>idx = [0..<length v],
                cols = map (\<lambda>(n, w). (n, replicate (length v) Missing)) (cols t)\<rparr>)
      else Inl ValueError)"

text \<open>
  Lines 248-261. The model is its \<^verbatim>\<open>predict_proba\<close>: given the frame it raises or
  returns one row of two class probabilities per scored row; \<^verbatim>\<open>[:, 1]\<close> takes the second.
  Every exception raised below line 250 is caught by the handler, which returns the local
  \<open>df\<close>: the copy, with whatever had been written into it.
\<close>

definition ejecutar_modelo ::
  "(table \<Rightarrow> py_exception + (real \<times> real) list) \<Rightarrow> store \<Rightarrow> ref \<Rightarrow> real
     \<Rightarrow> store \<times> log_line list \<times> (py_exception + ref)" where
  "ejecutar_modelo predict_proba s df0 umbral =
     (let (s1, df) = copy_frame s df0 in
      case predict_proba (s1 ! df) of
        Inl e \<Rightarrow> (s1, [ErrorAlEjecutar e], Inr df)
      | Inr proba \<Rightarrow>
          (case assign_array ''PROB_FRAUDE'' (map (\<lambda>p. Num (snd p)) proba) (s1 ! df) of
             Inl e \<Rightarrow> (s1, [ErrorAlEjecutar e], Inr df)
           | Inr t2 \<Rightarrow>
               (let s2 = s1[df := t2] in
                case get_col (s2 ! df) ''PROB_FRAUDE'' of
                  Inl e \<Rightarrow> (s2, [ErrorAlEjecutar e], Inr df)
                | Inr c \<Rightarrow>
                    (case cmp_col (\<lambda>x. x \<ge> umbral) c of
                       Inl e \<Rightarrow> (s2, [ErrorAlEjecutar e], Inr df)
                     | Inr msk \<Rightarrow>
                         (s2[df := set_col ''PRED_FRAUDE''
                                     (np_where msk (broadcast msk (Num 1)) (broadcast msk (Num 0)))
                                     (s2 ! df)],
                          [PrediccionesGeneradas umbral], Inr df)))))"

section \<open>Auxiliary notions for the statements\<close>

text \<open>A frame with every column rewritten by a function of its name and its cells.\<close>

definition map_cols :: "(string \<Rightarrow> column \<Rightarrow> column) \<Rightarrow> table \<Rightarrow> table" where
  "map_cols g t = t\<lparr>cols := map (\<lambda>(n, w). (n, g n w)) (cols t)\<rparr>"

text \<open>
  What lines 79-80 make of one numeric column: a negative number becomes the median
  of the column, every other cell stays.
\<close>

definition negativos_a_mediana :: "column \<Rightarrow> column" where
  "negativos_a_mediana c = map (\<lambda>v. if cell_test (\<lambda>x. x < 0) v then median_cell c else v) c"

text \<open>A frame of three rows used to instantiate the statements.\<close>

definition ejemplo_numerico :: table where
  "ejemplo_numerico =
     \<lparr>idx = [0, 1, 2],
      cols = [(''a'', [Num (- 4), Num 2, Missing]),
              (''b'', [Num 1, Num (- 1), Num 3]),
              (''z'', [Txt ''q'', Missing, Num (- 1)])]\<rparr>"

text \<open>
  What lines 53-59 make of one column: every cell is printed, stripped of commas and of
  surrounding whitespace, and parsed.
\<close>

definition normalizar :: "(real \<Rightarrow> string) \<Rightarrow> (string \<Rightarrow> real option) \<Rightarrow> column \<Rightarrow> column" where
  "normalizar float_repr parse_float c =
     map (\<lambda>v. to_numeric parse_float (Txt (strip (remove_commas (astype_str float_repr v))))) c"

text \<open>
  An instance of the two library parameters, for running the normalizer on a concrete
  frame: a reader of plain decimal numerals (an optional minus sign, digits, and
  optionally a point and more digits) and a printer with one decimal place.
\<close>

definition digit_of :: "char \<Rightarrow> nat option" where
  "digit_of ch = (let n = (of_char ch :: nat) in if 48 \<le> n \<and> n \<le> 57 then Some (n - 48) else None)"

fun read_digits :: "nat \<Rightarrow> string \<Rightarrow> nat option" where
  "read_digits acc [] = Some acc"
| "read_digits acc (ch # rest) =
     (case digit_of ch of None \<Rightarrow> None | Some d \<Rightarrow> read_digits (10 * acc + d) rest)"

definition read_unsigned :: "string \<Rightarrow> real option" where
  "read_unsigned str =
     (let whole = takeWhile (\<lambda>ch. ch \<noteq> CHR ''.'') str;
          frac = drop (Suc (length whole)) str
      in if whole = [] then None
         else (case (read_digits 0 whole, read_digits 0 frac) of
                 (Some a, Some b) \<Rightarrow> Some (real a + real b / 10 ^ length frac)
               | _ \<Rightarrow> None))"

definition read_decimal :: "string \<Rightarrow> real option" where
  "read_decimal str =
     (case str of
        CHR ''-'' # rest \<Rightarrow> map_option uminus (read_unsigned rest)
      | _ \<Rightarrow> read_unsigned str)"

definition digit_char :: "nat \<Rightarrow> char" where
  "digit_char d = ''0123456789'' ! d"

fun show_nat :: "nat \<Rightarrow> string" where
  "show_nat n = (if n < 10 then [digit_char n] else show_nat (n div 10) @ [digit_char (n mod 10)])"

declare show_nat.simps [simp del]

definition repr_one_decimal :: "real \<Rightarrow> string" where
  "repr_one_decimal x =
     (if x < 0 then ''-'' else '''') @ show_nat (nat \<lfloor>\<bar>x\<bar>\<rfloor>) @ ''.''
       @ [digit_char (nat \<lfloor>\<bar>x\<bar> * 10\<rfloor> mod 10)]"

text \<open>The column of the specification's examples, before and after the normalizer.\<close>

definition ejemplo_texto :: table where
  "ejemplo_texto = \<lparr>idx = [0, 1, 2], cols = [(''x'', [Txt ''1,234.8'', Txt ''  42 '', Txt ''N/A''])]\<rparr>"

definition ejemplo_texto_normalizado :: table where
  "ejemplo_texto_normalizado = \<lparr>idx = [0, 1, 2], cols = [(''x'', [Num (12348 / 10), Num 42, Missing])]\<rparr>"

text \<open>The categorical column of the specification's example.\<close>

definition ejemplo_categorias :: table where
  "ejemplo_categorias =
     \<lparr>idx = [0, 1, 2, 3], cols = [(''c'', [Txt ''X'', Txt ''Z'', Txt ''Y'', Txt ''W''])]\<rparr>"

text \<open>
  Three instances of \<^verbatim>\<open>joblib.load\<close>: the path does not resolve, the file does not
  deserialize, the load succeeds.
\<close>

definition joblib_no_encontrado :: "string \<Rightarrow> py_exception + unit" where
  "joblib_no_encontrado ruta = Inl (FileNotFoundError ruta)"

definition joblib_corrupto :: "string \<Rightarrow> py_exception + unit" where
  "joblib_corrupto ruta = Inl (OtherError ''invalid load key'')"

definition joblib_ok :: "string \<Rightarrow> py_exception + unit" where
  "joblib_ok ruta = Inr ()"

text \<open>
  Two models and two frames of two rows for the scorer: a model that raises, a model that
  gives the probabilities 0.6 and 0.5, a frame never scored and a frame that already has
  a column \<open>PROB_FRAUDE\<close>.
\<close>

definition modelo_falla :: "table \<Rightarrow> py_exception + (real \<times> real) list" where
  "modelo_falla t = Inl (OtherError ''feature names mismatch'')"

definition modelo_ejemplo :: "table \<Rightarrow> py_exception + (real \<times> real) list" where
  "modelo_ejemplo t = Inr [(4 / 10, 6 / 10), (5 / 10, 5 / 10)]"

definition ejemplo_puntuar :: table where
  "ejemplo_puntuar = \<lparr>idx = [0, 1], cols = [(''Monto'', [Num 10, Num 20])]\<rparr>"

definition ejemplo_ya_puntuado :: table where
  "ejemplo_ya_puntuado =
     \<lparr>idx = [0, 1], cols = [(''PROB_FRAUDE'', [Num 0, Num 0]), (''Monto'', [Num 10, Num 20])]\<rparr>"

text \<open>
  A step from frame \<open>t\<close> to frame \<open>t'\<close> keeps the rows: the row labels are the same, in
  the same order, and if every column of \<open>t\<close> had one cell per row, so has every column
  of \<open>t'\<close>.
\<close>

definition conserva_filas :: "table \<Rightarrow> table \<Rightarrow> bool" where
  "conserva_filas t t' = (idx t' = idx t \<and> (aligned t \<longrightarrow> aligned t'))"

text \<open>A model that gives every row the probabilities one half and one half.\<close>

definition modelo_constante :: "table \<Rightarrow> py_exception + (real \<times> real) list" where
  "modelo_constante t = Inr (map (\<lambda>i. (1 / 2, 1 / 2)) (idx t))"

section \<open>Basic facts about the frame operations\<close>

lemma np_where_broadcast_left:
  "np_where (map p c) (broadcast (map p c) m) c = map (\<lambda>v. if p v then m else v) c"
  by (induction c) (simp_all add: np_where_def broadcast_def)

lemma np_where_broadcast_both:
  "np_where (map p c) (broadcast (map p c) a) (broadcast (map p c) b) = map (\<lambda>v. if p v then a else b) c"
  by (induction c) (simp_all add: np_where_def broadcast_def)

lemma np_where_broadcast_right:
  "np_where (map p c) (map f c) (broadcast (map p c) b) = map (\<lambda>v. if p v then f v else b) c"
  by (induction c) (simp_all add: np_where_def broadcast_def)

lemma idx_set_col [simp]: "idx (set_col c v t) = idx t"
  by (simp add: set_col_def)

lemma col_names_set_col:
  "col_names (set_col c v t) = (if c \<in> set (col_names t) then col_names t else col_names t @ [c])"
  by (auto simp: set_col_def col_names_def case_prod_unfold intro!: nth_equalityI)

lemma set_col_names_set_col [simp]:
  "set (col_names (set_col c v t)) = insert c (set (col_names t))"
  by (auto simp: col_names_set_col)

lemma distinct_set_col: "distinct (col_names t) \<Longrightarrow> distinct (col_names (set_col c v t))"
  by (simp add: col_names_set_col)

lemma fst_in_set: "(k, a) \<in> set xs \<Longrightarrow> k \<in> fst ` set xs"
  by force

lemma map_of_replace:
  "map_of (map (\<lambda>(n, w). if n = c then (n, v) else (n, w)) xs) k =
     (if k = c then (if c \<in> fst ` set xs then Some v else None) else map_of xs k)"
  by (induction xs) (auto split: prod.splits intro: fst_in_set)

lemma map_of_None_iff: "map_of xs k = None \<longleftrightarrow> k \<notin> fst ` set xs"
  by (simp add: map_of_eq_None_iff)

lemma get_col_Inr_iff: "(\<exists>c. get_col t k = Inr c) \<longleftrightarrow> k \<in> set (col_names t)"
proof (cases "map_of (cols t) k")
  case None
  then have "k \<notin> set (col_names t)" by (simp add: col_names_def map_of_None_iff)
  moreover from None have "get_col t k = Inl (KeyError [] [k])" by (simp add: get_col_def)
  ultimately show ?thesis by simp
next
  case (Some a)
  then have "k \<in> fst ` set (cols t)" by (metis map_of_None_iff option.distinct(1))
  with Some show ?thesis by (simp add: get_col_def col_names_def)
qed

lemma get_col_Inl_iff: "(\<exists>e. get_col t k = Inl e) \<longleftrightarrow> k \<notin> set (col_names t)"
  using get_col_Inr_iff [of t k] by (cases "get_col t k") auto

lemma get_col_set_col:
  "get_col (set_col c v t) k = (if k = c then Inr v else get_col t k)"
proof (cases "c \<in> set (col_names t)")
  case True
  then show ?thesis
    by (simp add: get_col_def set_col_def col_names_def map_of_replace)
next
  case False
  then have "map_of (cols t) c = None" by (simp add: col_names_def map_of_None_iff)
  with False show ?thesis
    by (simp add: get_col_def set_col_def map_add_def split: option.splits)
qed

lemma get_col_length: "aligned t \<Longrightarrow> get_col t k = Inr c \<Longrightarrow> length c = length (idx t)"
  by (auto simp: get_col_def aligned_def list_all_iff split: option.splits dest!: map_of_SomeD)

lemma aligned_set_col: "aligned t \<Longrightarrow> length v = length (idx t) \<Longrightarrow> aligned (set_col c v t)"
  by (auto simp: aligned_def set_col_def list_all_iff split: if_splits)

lemma cmp_col_length: "cmp_col p c = Inr m \<Longrightarrow> length m = length c"
  by (auto simp: cmp_col_def split: if_splits)

lemma length_np_where: "length a = length m \<Longrightarrow> length b = length m \<Longrightarrow> length (np_where m a b) = length m"
  by (simp add: np_where_def)

lemma length_broadcast [simp]: "length (broadcast m v) = length m"
  by (simp add: broadcast_def)

subsection \<open>The column loop\<close>

lemma for_cols_rel:
  assumes "df < length s"
    and rfl: "\<And>t. R t t"
    and trn: "\<And>a b c. R a b \<Longrightarrow> R b c \<Longrightarrow> R a c"
    and step: "\<And>t c t'. c \<in> set cs \<Longrightarrow> body t c = Inr t' \<Longrightarrow> R t t'"
    and run: "for_cols body s df cs = (s', res)"
  shows "length s' = length s \<and> (\<forall>r. r \<noteq> df \<longrightarrow> s' ! r = s ! r) \<and> R (s ! df) (s' ! df)
         \<and> (\<forall>r. res = Inr r \<longrightarrow> r = df)"
  using assms(1) step run
proof (induction cs arbitrary: s)
  case Nil
  then show ?case by (auto simp: rfl)
next
  case (Cons c cs)
  show ?case
  proof (cases "body (s ! df) c")
    case (Inl e)
    with Cons.prems show ?thesis by (auto simp: rfl)
  next
    case (Inr t1)
    have r1: "R (s ! df) t1" using Cons.prems(2) [of c "s ! df" t1] Inr by simp
    have run1: "for_cols body (s[df := t1]) df cs = (s', res)"
      using Cons.prems(3) Inr by simp
    have len1: "df < length (s[df := t1])" using Cons.prems(1) by simp
    have step1: "R t t'" if "c' \<in> set cs" "body t c' = Inr t'" for t c' t'
      using Cons.prems(2) [of c' t t'] that by simp
    have ih: "length s' = length (s[df := t1]) \<and> (\<forall>r. r \<noteq> df \<longrightarrow> s' ! r = s[df := t1] ! r)
        \<and> R (s[df := t1] ! df) (s' ! df) \<and> (\<forall>r. res = Inr r \<longrightarrow> r = df)"
      by (rule Cons.IH [OF len1 step1 run1])
    have "R t1 (s' ! df)" using ih Cons.prems(1) by simp
    with r1 have "R (s ! df) (s' ! df)" by (rule trn)
    with ih show ?thesis by simp
  qed
qed

lemma map_cols_ident: "map_cols (\<lambda>n w. w) t = t"
  by (simp add: map_cols_def case_prod_unfold)

lemma map_cols_comp: "map_cols g (map_cols h t) = map_cols (\<lambda>n w. g n (h n w)) t"
  by (simp add: map_cols_def case_prod_unfold comp_def)

lemma col_names_map_cols [simp]: "col_names (map_cols g t) = col_names t"
  by (simp add: map_cols_def col_names_def case_prod_unfold comp_def)

lemma idx_map_cols [simp]: "idx (map_cols g t) = idx t"
  by (simp add: map_cols_def)

lemma map_of_distinct_entry:
  "distinct (map fst xs) \<Longrightarrow> (n, w) \<in> set xs \<Longrightarrow> map_of xs n = Some w"
  by simp

lemma get_col_entry:
  "distinct (col_names t) \<Longrightarrow> (n, w) \<in> set (cols t) \<Longrightarrow> get_col t n = Inr w"
  by (simp add: get_col_def col_names_def)

lemma get_col_entryD: "get_col t n = Inr w \<Longrightarrow> (n, w) \<in> set (cols t)"
  by (auto simp: get_col_def split: option.splits dest: map_of_SomeD)

lemma get_col_map_cols:
  "get_col (map_cols g t) n = (case get_col t n of Inl e \<Rightarrow> Inl e | Inr w \<Rightarrow> Inr (g n w))"
proof -
  have "map_of (map (\<lambda>(n, w). (n, g n w)) xs) n = map_option (g n) (map_of xs n)" for xs
    by (induction xs) auto
  then show ?thesis
    by (simp add: get_col_def map_cols_def split: option.splits)
qed

lemma set_col_as_map_cols:
  assumes "distinct (col_names t)" "get_col t c = Inr w"
  shows "set_col c (f w) t = map_cols (\<lambda>n x. if n = c then f x else x) t"
proof -
  have mem: "c \<in> set (col_names t)" using assms(2) get_col_Inr_iff by blast
  have "(if n = c then (n, f w) else (n, x)) = (n, if n = c then f x else x)"
    if "(n, x) \<in> set (cols t)" for n x
    using get_col_entry [OF assms(1) that] assms(2) by auto
  then have "map (\<lambda>(n, x). if n = c then (n, f w) else (n, x)) (cols t)
      = map (\<lambda>(n, x). (n, if n = c then f x else x)) (cols t)"
    by (intro map_cong) auto
  with mem show ?thesis by (simp add: set_col_def map_cols_def)
qed

lemma for_cols_columnwise:
  assumes "df < length s" "distinct (col_names (s ! df))" "set cs \<subseteq> set (col_names (s ! df))"
    and ok: "\<And>c w. c \<in> set cs \<Longrightarrow> get_col (s ! df) c = Inr w \<Longrightarrow> ok w"
    and okf: "\<And>w. ok w \<Longrightarrow> ok (f w)"
    and body: "\<And>t c w. get_col t c = Inr w \<Longrightarrow> ok w \<Longrightarrow> body t c = Inr (set_col c (f w) t)"
  shows "for_cols body s df cs = (s[df := map_cols (\<lambda>n w. (f ^^ count_list cs n) w) (s ! df)], Inr df)"
  using assms(1-4)
proof (induction cs arbitrary: s)
  case Nil
  then show ?case by (simp add: map_cols_ident)
next
  case (Cons c cs)
  let ?t = "s ! df"
  from Cons.prems(3) obtain w where w: "get_col ?t c = Inr w"
    using get_col_Inr_iff [of ?t c] by auto
  have okw: "ok w" using Cons.prems(4) [of c w] w by simp
  define t1 where "t1 = set_col c (f w) ?t"
  have b: "body ?t c = Inr t1" using body [OF w okw] by (simp add: t1_def)
  have t1_map: "t1 = map_cols (\<lambda>n x. if n = c then f x else x) ?t"
    unfolding t1_def by (rule set_col_as_map_cols [OF Cons.prems(2) w])
  let ?s1 = "s[df := t1]"
  have s1df: "?s1 ! df = t1" using Cons.prems(1) by simp
  have p1: "df < length ?s1" using Cons.prems(1) by simp
  have names1: "col_names t1 = col_names ?t" by (simp add: t1_map)
  have p2: "distinct (col_names (?s1 ! df))" using Cons.prems(2) by (simp only: s1df names1)
  have p3: "set cs \<subseteq> set (col_names (?s1 ! df))" using Cons.prems(3) by (simp add: s1df names1)
  have p4: "ok w'" if "c' \<in> set cs" "get_col (?s1 ! df) c' = Inr w'" for c' w'
  proof (cases "c' = c")
    case True
    from that(2) have "get_col t1 c' = Inr w'" by (simp only: s1df)
    with True have "w' = f w" by (simp add: t1_def get_col_set_col)
    with okw show ?thesis by (simp add: okf)
  next
    case False
    from that(2) have "get_col t1 c' = Inr w'" by (simp only: s1df)
    with False have "get_col ?t c' = Inr w'" by (simp add: t1_def get_col_set_col)
    with that(1) show ?thesis using Cons.prems(4) [of c' w'] by simp
  qed
  have ih: "for_cols body ?s1 df cs
      = (?s1[df := map_cols (\<lambda>n w. (f ^^ count_list cs n) w) (?s1 ! df)], Inr df)"
    by (rule Cons.IH [OF p1 p2 p3 p4])
  have comp: "map_cols (\<lambda>n w. (f ^^ count_list cs n) w) t1
      = map_cols (\<lambda>n w. (f ^^ count_list (c # cs) n) w) ?t"
    unfolding t1_map map_cols_comp
    by (rule arg_cong [where f = "\<lambda>g. map_cols g ?t"]) (auto simp: fun_eq_iff funpow_swap1)
  show ?case using b ih by (simp add: s1df comp)
qed

section \<open>The negative-to-median corrector on the column of the specification\<close>

text \<open>
  C2 (as the code has it). For the column \<open>[-5, 2, 4, missing]\<close> the median of the
  non-missing values \<open>-5, 2, 4\<close> is 2, and the corrected column is \<open>[2, 2, 4, missing]\<close>:
  the negative value takes part in the median that replaces it.
\<close>

theorem reemplazar_negativos_ejemplo:
  "col_median [Num (- 5), Num 2, Num 4, Missing] = Inr (Num 2) \<and>
   reemplazar_negativos_por_mediana
     [\<lparr>idx = [0, 1, 2, 3], cols = [(''x'', [Num (- 5), Num 2, Num 4, Missing])]\<rparr>] 0 [''x''] =
   ([\<lparr>idx = [0, 1, 2, 3], cols = [(''x'', [Num 2, Num 2, Num 4, Missing])]\<rparr>], Inr 0)"
  by (simp add: reemplazar_negativos_por_mediana_def reemplazar_negativos_col_def get_col_def
      col_median_def median_cell_def median_def cmp_col_def cell_test_def np_where_def broadcast_def set_col_def col_names_def)

text \<open>
  The median is not 3 and the corrected column is not \<open>[3, 2, 4, missing]\<close>.
\<close>

theorem reemplazar_negativos_ejemplo_no_es_3:
  "col_median [Num (- 5), Num 2, Num 4, Missing] \<noteq> Inr (Num 3) \<and>
   reemplazar_negativos_por_mediana
     [\<lparr>idx = [0, 1, 2, 3], cols = [(''x'', [Num (- 5), Num 2, Num 4, Missing])]\<rparr>] 0 [''x''] \<noteq>
   ([\<lparr>idx = [0, 1, 2, 3], cols = [(''x'', [Num 3, Num 2, Num 4, Missing])]\<rparr>], Inr 0)"
  by (simp add: reemplazar_negativos_por_mediana_def reemplazar_negativos_col_def get_col_def
      col_median_def median_cell_def median_def cmp_col_def cell_test_def np_where_def broadcast_def set_col_def col_names_def)

section \<open>The contract of the negative-to-median corrector\<close>

lemma median_cell_not_Txt: "\<not> is_Txt (median_cell c)"
  by (simp add: median_cell_def split: option.splits)

lemma negativos_a_mediana_numeric:
  "\<not> list_ex is_Txt c \<Longrightarrow> \<not> list_ex is_Txt (negativos_a_mediana c)"
  by (auto simp: negativos_a_mediana_def list_ex_iff median_cell_not_Txt)

lemma reemplazar_negativos_col_numeric:
  assumes "get_col t col = Inr c" "\<not> list_ex is_Txt c"
  shows "reemplazar_negativos_col t col = Inr (set_col col (negativos_a_mediana c) t)"
  using assms
  by (simp add: reemplazar_negativos_col_def col_median_def cmp_col_def
      np_where_broadcast_left negativos_a_mediana_def)

lemma count_list_distinct: "distinct cs \<Longrightarrow> count_list cs n = (if n \<in> set cs then 1 else 0)"
  by (induction cs) auto

lemma count_list_mset: "mset cs' = mset cs \<Longrightarrow> count_list cs' n = count_list cs n"
  by (metis count_mset)

lemma reemplazar_negativos_columnwise:
  assumes "df < length s" "distinct (col_names (s ! df))" "set columnas \<subseteq> set (col_names (s ! df))"
    and "\<forall>col\<in>set columnas. \<forall>c. get_col (s ! df) col = Inr c \<longrightarrow> \<not> list_ex is_Txt c"
  shows "reemplazar_negativos_por_mediana s df columnas =
     (s[df := map_cols (\<lambda>n w. (negativos_a_mediana ^^ count_list columnas n) w) (s ! df)], Inr df)"
  unfolding reemplazar_negativos_por_mediana_def
proof (rule for_cols_columnwise [where ok = "\<lambda>w. \<not> list_ex is_Txt w"])
  show "df < length s" "distinct (col_names (s ! df))" "set columnas \<subseteq> set (col_names (s ! df))"
    by (rule assms)+
  show "\<not> list_ex is_Txt w" if "c \<in> set columnas" "get_col (s ! df) c = Inr w" for c w
    using assms(4) that by blast
  show "\<not> list_ex is_Txt (negativos_a_mediana w)" if "\<not> list_ex is_Txt w" for w
    using that by (rule negativos_a_mediana_numeric)
  show "reemplazar_negativos_col t c = Inr (set_col c (negativos_a_mediana w) t)"
    if "get_col t c = Inr w" "\<not> list_ex is_Txt w" for t c w
    using that by (rule reemplazar_negativos_col_numeric)
qed

lemma reemplazar_numerico_ejemplo:
  "reemplazar_negativos_por_mediana [ejemplo_numerico] 0 [''a'', ''b''] =
     ([\<lparr>idx = [0, 1, 2],
        cols = [(''a'', [Num (- 1), Num 2, Missing]),
                (''b'', [Num 1, Num 1, Num 3]),
                (''z'', [Txt ''q'', Missing, Num (- 1)])]\<rparr>], Inr 0)"
  by (simp add: reemplazar_negativos_por_mediana_def reemplazar_negativos_col_def get_col_def
      col_median_def median_cell_def median_def cmp_col_def cell_test_def np_where_def
      broadcast_def set_col_def col_names_def ejemplo_numerico_def)

lemma negativos_a_mediana_explicit:
  "map (\<lambda>v. if cell_test (\<lambda>x. x < 0) v then median_cell c else v) c =
   map (\<lambda>v. case v of
              Num x \<Rightarrow> if x < 0
                       then (case median (map num_val (filter is_Num c)) of
                               None \<Rightarrow> Missing
                             | Some m \<Rightarrow> Num m)
                       else Num x
            | Txt str \<Rightarrow> Txt str
            | Missing \<Rightarrow> Missing) c"
  by (rule map_cong) (simp_all add: cell_test_def median_cell_def split: cell.splits)

text \<open>
  C7. Take a frame with distinct column names, and listed columns that exist and hold
  numbers or missing cells only. Then the corrector raises nothing and returns the frame
  it was given, with the same rows and column names. When no column is listed twice,
  every listed column is rewritten cell by cell: a number below zero becomes the median
  of the numbers of the column as it was (the missing cells left out), a number from
  zero up stays, a missing cell stays missing; every other column is untouched. Listing
  the same columns in another order gives the same store and result. On the frame with
  the columns \<open>a = [-4, 2, missing]\<close> and \<open>b = [1, -1, 3]\<close>, listed in either order,
  the result is \<open>a = [-1, 2, missing]\<close> and \<open>b = [1, 1, 3]\<close>.
\<close>

theorem reemplazar_negativos_contrato:
  assumes "df < length s" "distinct (col_names (s ! df))" "set columnas \<subseteq> set (col_names (s ! df))"
    and "\<forall>col\<in>set columnas. \<forall>c. get_col (s ! df) col = Inr c \<longrightarrow> \<not> list_ex is_Txt c"
  shows "(\<exists>s'. reemplazar_negativos_por_mediana s df columnas = (s', Inr df)
     \<and> idx (s' ! df) = idx (s ! df) \<and> col_names (s' ! df) = col_names (s ! df)
     \<and> (distinct columnas \<longrightarrow>
          (\<forall>col c. get_col (s ! df) col = Inr c \<longrightarrow>
             get_col (s' ! df) col =
               Inr (if col \<in> set columnas
                    then map (\<lambda>v. case v of
                                     Num x \<Rightarrow> if x < 0
                                              then (case median (map num_val (filter is_Num c)) of
                                                      None \<Rightarrow> Missing
                                                    | Some m \<Rightarrow> Num m)
                                              else Num x
                                   | Txt str \<Rightarrow> Txt str
                                   | Missing \<Rightarrow> Missing) c
                    else c)))
     \<and> (\<forall>columnas'. mset columnas' = mset columnas \<longrightarrow>
          reemplazar_negativos_por_mediana s df columnas' = (s', Inr df)))
   \<and> reemplazar_negativos_por_mediana [ejemplo_numerico] 0 [''a'', ''b''] =
       ([\<lparr>idx = [0, 1, 2],
          cols = [(''a'', [Num (- 1), Num 2, Missing]),
                  (''b'', [Num 1, Num 1, Num 3]),
                  (''z'', [Txt ''q'', Missing, Num (- 1)])]\<rparr>], Inr 0)
   \<and> reemplazar_negativos_por_mediana [ejemplo_numerico] 0 [''b'', ''a''] =
       reemplazar_negativos_por_mediana [ejemplo_numerico] 0 [''a'', ''b'']"
proof -
  let ?g = "\<lambda>cs n w. (negativos_a_mediana ^^ count_list cs n) w"
  let ?t' = "map_cols (?g columnas) (s ! df)"
  let ?s' = "s[df := ?t']"
  let ?E = "\<lambda>c. map (\<lambda>v. case v of
                          Num x \<Rightarrow> if x < 0
                                   then (case median (map num_val (filter is_Num c)) of
                                           None \<Rightarrow> Missing
                                         | Some m \<Rightarrow> Num m)
                                   else Num x
                        | Txt str \<Rightarrow> Txt str
                        | Missing \<Rightarrow> Missing) c"
  have run: "reemplazar_negativos_por_mediana s df columnas = (?s', Inr df)"
    by (rule reemplazar_negativos_columnwise [OF assms])
  have at: "?s' ! df = ?t'" using assms(1) by simp
  have i: "idx (?s' ! df) = idx (s ! df)" by (simp only: at idx_map_cols)
  have n: "col_names (?s' ! df) = col_names (s ! df)" by (simp only: at col_names_map_cols)
  have d0: "get_col (?s' ! df) col =
        Inr (if col \<in> set columnas
             then map (\<lambda>v. if cell_test (\<lambda>x. x < 0) v then median_cell c else v) c else c)"
    if "distinct columnas" "get_col (s ! df) col = Inr c" for col c
    using that by (simp only: at) (simp add: get_col_map_cols count_list_distinct negativos_a_mediana_def)
  have d: "get_col (?s' ! df) col = Inr (if col \<in> set columnas then ?E c else c)"
    if "distinct columnas" "get_col (s ! df) col = Inr c" for col c
    using d0 [OF that] by (simp only: negativos_a_mediana_explicit)
  have p: "reemplazar_negativos_por_mediana s df columnas' = (?s', Inr df)"
    if m: "mset columnas' = mset columnas" for columnas'
  proof -
    have eqset: "set columnas' = set columnas" using m by (rule mset_eq_setD)
    have "reemplazar_negativos_por_mediana s df columnas' =
        (s[df := map_cols (?g columnas') (s ! df)], Inr df)"
      using assms by (intro reemplazar_negativos_columnwise) (simp_all only: eqset)
    moreover have "?g columnas' = ?g columnas"
      by (simp add: fun_eq_iff count_list_mset [OF m])
    ultimately show ?thesis by simp
  qed
  have general: "\<exists>s'. reemplazar_negativos_por_mediana s df columnas = (s', Inr df)
     \<and> idx (s' ! df) = idx (s ! df) \<and> col_names (s' ! df) = col_names (s ! df)
     \<and> (distinct columnas \<longrightarrow>
          (\<forall>col c. get_col (s ! df) col = Inr c \<longrightarrow>
             get_col (s' ! df) col = Inr (if col \<in> set columnas then ?E c else c)))
     \<and> (\<forall>columnas'. mset columnas' = mset columnas \<longrightarrow>
          reemplazar_negativos_por_mediana s df columnas' = (s', Inr df))"
    using run i n d p by (intro exI [of _ ?s']) blast
  have e1: "reemplazar_negativos_por_mediana [ejemplo_numerico] 0 [''a'', ''b''] =
       ([\<lparr>idx = [0, 1, 2],
          cols = [(''a'', [Num (- 1), Num 2, Missing]),
                  (''b'', [Num 1, Num 1, Num 3]),
                  (''z'', [Txt ''q'', Missing, Num (- 1)])]\<rparr>], Inr 0)"
    by (rule reemplazar_numerico_ejemplo)
  have e2: "reemplazar_negativos_por_mediana [ejemplo_numerico] 0 [''b'', ''a''] =
       reemplazar_negativos_por_mediana [ejemplo_numerico] 0 [''a'', ''b'']"
    by (simp add: reemplazar_negativos_por_mediana_def reemplazar_negativos_col_def get_col_def
      col_median_def median_cell_def median_def cmp_col_def cell_test_def np_where_def
      broadcast_def set_col_def col_names_def ejemplo_numerico_def)
  from general e1 e2 show ?thesis by (intro conjI)
qed

theorem reemplazar_negativos_contrato_witness:
  "(0::nat) < length [ejemplo_numerico]
   \<and> distinct (col_names ([ejemplo_numerico] ! 0))
   \<and> set [''a'', ''b''] \<subseteq> set (col_names ([ejemplo_numerico] ! 0))
   \<and> \<not> list_ex is_Txt [Num (- 4), Num 2, Missing]
   \<and> \<not> list_ex is_Txt [Num 1, Num (- 1), Num 3]
   \<and> distinct [''a'', ''b'']
   \<and> mset [''b'', ''a''] = mset [''a'', ''b'']
   \<and> (\<exists>s'. reemplazar_negativos_por_mediana [ejemplo_numerico] 0 [''a'', ''b''] = (s', Inr 0)
          \<and> reemplazar_negativos_por_mediana [ejemplo_numerico] 0 [''b'', ''a''] = (s', Inr 0)
          \<and> idx (s' ! 0) = [0, 1, 2]
          \<and> col_names (s' ! 0) = [''a'', ''b'', ''z'']
          \<and> get_col (s' ! 0) ''a'' = Inr [Num (- 1), Num 2, Missing]
          \<and> get_col (s' ! 0) ''b'' = Inr [Num 1, Num 1, Num 3]
          \<and> get_col (s' ! 0) ''z'' = Inr [Txt ''q'', Missing, Num (- 1)])"
proof -
  have h1: "(0::nat) < length [ejemplo_numerico]" by simp
  have h2: "distinct (col_names ([ejemplo_numerico] ! 0))"
    by (simp add: ejemplo_numerico_def col_names_def)
  have h3: "set [''a'', ''b''] \<subseteq> set (col_names ([ejemplo_numerico] ! 0))"
    by (simp add: ejemplo_numerico_def col_names_def)
  have n1: "\<not> list_ex is_Txt [Num (- 4), Num 2, Missing]" by simp
  have n2: "\<not> list_ex is_Txt [Num 1, Num (- 1), Num 3]" by simp
  have h4: "\<forall>col\<in>set [''a'', ''b'']. \<forall>c. get_col ([ejemplo_numerico] ! 0) col = Inr c
              \<longrightarrow> \<not> list_ex is_Txt c"
    by (auto simp: ejemplo_numerico_def get_col_def)
  have a: "get_col ([ejemplo_numerico] ! 0) ''a'' = Inr [Num (- 4), Num 2, Missing]"
    by (simp add: ejemplo_numerico_def get_col_def)
  have b: "get_col ([ejemplo_numerico] ! 0) ''b'' = Inr [Num 1, Num (- 1), Num 3]"
    by (simp add: ejemplo_numerico_def get_col_def)
  have z: "get_col ([ejemplo_numerico] ! 0) ''z'' = Inr [Txt ''q'', Missing, Num (- 1)]"
    by (simp add: ejemplo_numerico_def get_col_def)
  have d: "distinct [''a'', ''b'']" by simp
  have m: "mset [''b'', ''a''] = mset [''a'', ''b'']" by (simp add: add_mset_commute)
  have ix: "idx ([ejemplo_numerico] ! 0) = [0, 1, 2]" by (simp add: ejemplo_numerico_def)
  have nm: "col_names ([ejemplo_numerico] ! 0) = [''a'', ''b'', ''z'']"
    by (simp add: ejemplo_numerico_def col_names_def)
  from reemplazar_negativos_contrato [OF h1 h2 h3 h4]
  obtain s' where run: "reemplazar_negativos_por_mediana [ejemplo_numerico] 0 [''a'', ''b''] = (s', Inr 0)"
    and i: "idx (s' ! 0) = idx ([ejemplo_numerico] ! 0)"
    and n: "col_names (s' ! 0) = col_names ([ejemplo_numerico] ! 0)"
    and cells: "distinct [''a'', ''b''] \<longrightarrow>
          (\<forall>col c. get_col ([ejemplo_numerico] ! 0) col = Inr c \<longrightarrow>
             get_col (s' ! 0) col =
               Inr (if col \<in> set [''a'', ''b'']
                    then map (\<lambda>v. case v of
                                     Num x \<Rightarrow> if x < 0
                                              then (case median (map num_val (filter is_Num c)) of
                                                      None \<Rightarrow> Missing
                                                    | Some m \<Rightarrow> Num m)
                                              else Num x
                                   | Txt str \<Rightarrow> Txt str
                                   | Missing \<Rightarrow> Missing) c
                    else c))"
    and perm: "\<forall>columnas'. mset columnas' = mset [''a'', ''b''] \<longrightarrow>
          reemplazar_negativos_por_mediana [ejemplo_numerico] 0 columnas' = (s', Inr 0)"
    by (elim conjE exE)
  from perm m have run2: "reemplazar_negativos_por_mediana [ejemplo_numerico] 0 [''b'', ''a''] = (s', Inr 0)"
    by blast
  from cells d have all: "\<forall>col c. get_col ([ejemplo_numerico] ! 0) col = Inr c \<longrightarrow>
             get_col (s' ! 0) col =
               Inr (if col \<in> set [''a'', ''b'']
                    then map (\<lambda>v. case v of
                                     Num x \<Rightarrow> if x < 0
                                              then (case median (map num_val (filter is_Num c)) of
                                                      None \<Rightarrow> Missing
                                                    | Some m \<Rightarrow> Num m)
                                              else Num x
                                   | Txt str \<Rightarrow> Txt str
                                   | Missing \<Rightarrow> Missing) c
                    else c)"
    by (rule mp)
  from all a have ca: "get_col (s' ! 0) ''a'' = Inr [Num (- 1), Num 2, Missing]"
    by (simp add: median_def)
  from all b have cb: "get_col (s' ! 0) ''b'' = Inr [Num 1, Num 1, Num 3]"
    by (simp add: median_def)
  from all z have cz: "get_col (s' ! 0) ''z'' = Inr [Txt ''q'', Missing, Num (- 1)]"
    by simp
  from i ix have i': "idx (s' ! 0) = [0, 1, 2]" by simp
  from n nm have n': "col_names (s' ! 0) = [''a'', ''b'', ''z'']" by simp
  have "\<exists>s'. reemplazar_negativos_por_mediana [ejemplo_numerico] 0 [''a'', ''b''] = (s', Inr 0)
          \<and> reemplazar_negativos_por_mediana [ejemplo_numerico] 0 [''b'', ''a''] = (s', Inr 0)
          \<and> idx (s' ! 0) = [0, 1, 2]
          \<and> col_names (s' ! 0) = [''a'', ''b'', ''z'']
          \<and> get_col (s' ! 0) ''a'' = Inr [Num (- 1), Num 2, Missing]
          \<and> get_col (s' ! 0) ''b'' = Inr [Num 1, Num 1, Num 3]
          \<and> get_col (s' ! 0) ''z'' = Inr [Txt ''q'', Missing, Num (- 1)]"
    by (rule exI [of _ s']) (intro conjI run run2 i' n' ca cb cz)
  with h1 h2 h3 n1 n2 d m show ?thesis by (intro conjI)
qed

section \<open>The numeric normalizer\<close>

lemma set_col_twice: "set_col c v2 (set_col c v1 t) = set_col c v2 t"
proof (cases "c \<in> set (col_names t)")
  case True
  have outer: "set_col c v2 (set_col c v1 t) =
      (set_col c v1 t)\<lparr>cols := map (\<lambda>(n, w). if n = c then (n, v2) else (n, w)) (cols (set_col c v1 t))\<rparr>"
    by (simp add: set_col_def [of c v2])
  have inner: "set_col c v1 t = t\<lparr>cols := map (\<lambda>(n, w). if n = c then (n, v1) else (n, w)) (cols t)\<rparr>"
    using True by (simp add: set_col_def)
  have "set_col c v2 (set_col c v1 t) =
      t\<lparr>cols := map (\<lambda>(n, w). if n = c then (n, v2) else (n, w)) (cols t)\<rparr>"
    by (subst outer, subst (1 2) inner) (simp add: case_prod_unfold comp_def)
  with True show ?thesis by (simp add: set_col_def)
next
  case False
  then have "map (\<lambda>(n, w). if n = c then (n, v2) else (n, w)) (cols t) = cols t"
    by (intro map_idI) (auto simp: col_names_def dest: fst_in_set)
  with False show ?thesis
    by (simp add: set_col_def col_names_def)
qed

lemma limpiar_col_eq:
  assumes "get_col t col = Inr c"
  shows "limpiar_col float_repr parse_float t col = Inr (set_col col (normalizar float_repr parse_float c) t)"
  using assms
  by (simp add: limpiar_col_def get_col_set_col set_col_twice normalizar_def comp_def Let_def)

lemma limpiar_columnwise:
  assumes "df < length s" "distinct (col_names (s ! df))" "set columnas \<subseteq> set (col_names (s ! df))"
  shows "limpiar_y_convertir float_repr parse_float s df columnas =
     (s[df := map_cols (\<lambda>n w. (normalizar float_repr parse_float ^^ count_list columnas n) w) (s ! df)], Inr df)"
  unfolding limpiar_y_convertir_def
  by (rule for_cols_columnwise [where ok = "\<lambda>w. True"]) (simp_all add: assms limpiar_col_eq)

text \<open>
  The normalizer on the column of the specification's examples, given a parser that reads
  \<open>1234.8\<close> and \<open>42\<close> and rejects \<open>N/A\<close>: the cells \<open>"1,234.8"\<close>, \<open>"  42 "\<close> and
  \<open>"N/A"\<close> become 1234.8, 42 and the missing marker, and nothing is raised.
\<close>

lemma limpiar_ejemplo:
  assumes "parse_float ''1234.8'' = Some (12348 / 10)" "parse_float ''42'' = Some 42"
    "parse_float ''N/A'' = None"
  shows "limpiar_y_convertir float_repr parse_float [ejemplo_texto] 0 [''x'']
           = ([ejemplo_texto_normalizado], Inr 0)"
  using assms
  by (simp add: limpiar_y_convertir_def limpiar_col_def get_col_def set_col_def col_names_def
      to_numeric_def astype_str_def strip_def remove_commas_def is_space_def
      ejemplo_texto_def ejemplo_texto_normalizado_def)

text \<open>
  What the normalizer writes. On a frame with distinct column names that has the listed
  columns, none listed twice, it raises nothing, whatever the cells hold: every cell of a
  listed column is printed (a text as it is, a number by the float printer, a missing
  cell as \<open>nan\<close>), stripped of commas and of surrounding whitespace, and replaced by the
  number the parser reads there, or by the missing marker when the parser reads none;
  every other column is untouched.
\<close>

lemma limpiar_y_convertir_columnas:
  assumes "df < length s" and "distinct (col_names (s ! df))"
    and "set columnas \<subseteq> set (col_names (s ! df))" and "distinct columnas"
  shows "\<exists>s'. limpiar_y_convertir float_repr parse_float s df columnas = (s', Inr df)
     \<and> (\<forall>col c. get_col (s ! df) col = Inr c \<longrightarrow>
            get_col (s' ! df) col =
              Inr (if col \<in> set columnas
                   then map (\<lambda>v. case parse_float
                                     (strip (remove_commas
                                        (case v of Num x \<Rightarrow> float_repr x
                                                 | Txt str \<Rightarrow> str
                                                 | Missing \<Rightarrow> ''nan''))) of
                                   None \<Rightarrow> Missing
                                 | Some x \<Rightarrow> Num x) c
                   else c))"
proof -
  let ?N = "normalizar float_repr parse_float"
  let ?t' = "map_cols (\<lambda>n w. (?N ^^ count_list columnas n) w) (s ! df)"
  let ?s' = "s[df := ?t']"
  have run: "limpiar_y_convertir float_repr parse_float s df columnas = (?s', Inr df)"
    by (rule limpiar_columnwise [OF assms(1-3)])
  have at: "?s' ! df = ?t'" using assms(1) by simp
  have N: "?N c = map (\<lambda>v. case parse_float
                                     (strip (remove_commas
                                        (case v of Num x \<Rightarrow> float_repr x
                                                 | Txt str \<Rightarrow> str
                                                 | Missing \<Rightarrow> ''nan''))) of
                                   None \<Rightarrow> Missing
                                 | Some x \<Rightarrow> Num x) c" for c
    by (simp add: normalizar_def to_numeric_def astype_str_def)
  have d: "get_col (?s' ! df) col = Inr (if col \<in> set columnas then ?N c else c)"
    if "get_col (s ! df) col = Inr c" for col c
    using that assms(4) by (simp only: at) (simp add: get_col_map_cols count_list_distinct)
  have d2: "get_col (?s' ! df) col =
              Inr (if col \<in> set columnas
                   then map (\<lambda>v. case parse_float
                                     (strip (remove_commas
                                        (case v of Num x \<Rightarrow> float_repr x
                                                 | Txt str \<Rightarrow> str
                                                 | Missing \<Rightarrow> ''nan''))) of
                                   None \<Rightarrow> Missing
                                 | Some x \<Rightarrow> Num x) c
                   else c)"
    if "get_col (s ! df) col = Inr c" for col c
    using d [OF that] by (simp only: N)
  show ?thesis
    by (rule exI [of _ ?s'], rule conjI, rule run, intro allI impI, erule d2)
qed

section \<open>The categorical collapser\<close>

lemma set_unique [simp]: "set (unique xs) = set xs"
  by (simp add: unique_def)

lemma distinct_unique [simp]: "distinct (unique xs)"
  by (simp add: unique_def)

lemma dummy_name_neq: "columna @ ''_'' @ cat \<noteq> columna"
proof
  assume "columna @ ''_'' @ cat = columna"
  then have "length (columna @ ''_'' @ cat) = length columna" by simp
  then show False by simp
qed

lemma dummy_name_inj: "columna @ ''_'' @ cat = columna @ ''_'' @ cat' \<longleftrightarrow> cat = cat'"
  by simp

lemma dummy_col_eq:
  assumes "get_col t columna = Inr c"
  shows "dummy_col columna t cat =
     Inr (set_col (columna @ ''_'' @ cat) (map (\<lambda>v. if v = Txt cat then Num 1 else Num 0) c) t)"
  using assms by (simp add: dummy_col_def np_where_broadcast_both Let_def)

lemma dummy_loop:
  assumes "df < length s" "get_col (s ! df) columna = Inr c"
  shows "\<exists>s'. for_cols (dummy_col columna) s df cats = (s', Inr df)
     \<and> length s' = length s \<and> (\<forall>r. r \<noteq> df \<longrightarrow> s' ! r = s ! r)
     \<and> idx (s' ! df) = idx (s ! df)
     \<and> (\<forall>cat\<in>set cats. get_col (s' ! df) (columna @ ''_'' @ cat)
            = Inr (map (\<lambda>v. if v = Txt cat then Num 1 else Num 0) c))
     \<and> (\<forall>n. n \<notin> (\<lambda>cat. columna @ ''_'' @ cat) ` set cats \<longrightarrow> get_col (s' ! df) n = get_col (s ! df) n)
     \<and> set (col_names (s' ! df)) = set (col_names (s ! df)) \<union> (\<lambda>cat. columna @ ''_'' @ cat) ` set cats"
  using assms
proof (induction cats arbitrary: s)
  case Nil
  then show ?case by simp
next
  case (Cons cat cats)
  let ?nm = "\<lambda>cat. columna @ ''_'' @ cat"
  let ?ind = "\<lambda>cat. map (\<lambda>v. if v = Txt cat then Num 1 else Num 0) c"
  define t1 where "t1 = set_col (?nm cat) (?ind cat) (s ! df)"
  have b: "dummy_col columna (s ! df) cat = Inr t1"
    using dummy_col_eq [OF Cons.prems(2)] by (simp add: t1_def)
  let ?s1 = "s[df := t1]"
  have at1: "?s1 ! df = t1" using Cons.prems(1) by simp
  have p1: "df < length ?s1" using Cons.prems(1) by simp
  have g1: "get_col t1 columna = Inr c"
    using Cons.prems(2) dummy_name_neq [of columna cat]
    by (simp add: t1_def get_col_set_col)
  have p2: "get_col (?s1 ! df) columna = Inr c" using g1 by (simp only: at1)
  from Cons.IH [OF p1 p2] obtain s' where
    run: "for_cols (dummy_col columna) ?s1 df cats = (s', Inr df)"
    and len: "length s' = length ?s1"
    and oth: "\<forall>r. r \<noteq> df \<longrightarrow> s' ! r = ?s1 ! r"
    and ix: "idx (s' ! df) = idx (?s1 ! df)"
    and ind: "\<forall>cat\<in>set cats. get_col (s' ! df) (?nm cat) = Inr (?ind cat)"
    and rest: "\<forall>n. n \<notin> ?nm ` set cats \<longrightarrow> get_col (s' ! df) n = get_col (?s1 ! df) n"
    and nms: "set (col_names (s' ! df)) = set (col_names (?s1 ! df)) \<union> ?nm ` set cats"
    by blast
  have run': "for_cols (dummy_col columna) s df (cat # cats) = (s', Inr df)"
    using b run by simp
  have len': "length s' = length s" using len by simp
  have oth': "\<forall>r. r \<noteq> df \<longrightarrow> s' ! r = s ! r" using oth by simp
  have ix': "idx (s' ! df) = idx (s ! df)" using ix by (simp only: at1) (simp add: t1_def)
  have ind': "get_col (s' ! df) (?nm k) = Inr (?ind k)" if "k \<in> set (cat # cats)" for k
  proof (cases "k \<in> set cats")
    case True
    with ind show ?thesis by blast
  next
    case False
    with that have k: "k = cat" by simp
    from False have "?nm k \<notin> ?nm ` set cats" by auto
    with rest have "get_col (s' ! df) (?nm k) = get_col (?s1 ! df) (?nm k)" by blast
    also have "\<dots> = get_col t1 (?nm k)" by (simp only: at1)
    also have "\<dots> = Inr (?ind k)" by (simp add: k t1_def get_col_set_col)
    finally show ?thesis .
  qed
  have rest': "get_col (s' ! df) n = get_col (s ! df) n" if "n \<notin> ?nm ` set (cat # cats)" for n
  proof -
    from that have n1: "n \<notin> ?nm ` set cats" and n2: "n \<noteq> ?nm cat" by auto
    from rest n1 have "get_col (s' ! df) n = get_col (?s1 ! df) n" by blast
    also have "\<dots> = get_col t1 n" by (simp only: at1)
    also have "\<dots> = get_col (s ! df) n" using n2 by (simp add: t1_def get_col_set_col)
    finally show ?thesis .
  qed
  have nms': "set (col_names (s' ! df)) = set (col_names (s ! df)) \<union> ?nm ` set (cat # cats)"
  proof -
    have "set (col_names (s' ! df)) = set (col_names t1) \<union> ?nm ` set cats"
      using nms by (simp only: at1)
    then show ?thesis by (simp add: t1_def)
  qed
  from run' len' oth' ix' ind' rest' nms' show ?case by blast
qed

lemma get_col_drop_col:
  assumes "drop_col columna t = Inr t'"
  shows "columna \<notin> set (col_names t')" "n \<noteq> columna \<Longrightarrow> get_col t' n = get_col t n"
    "set (col_names t') = set (col_names t) - {columna}" "idx t' = idx t"
proof -
  from assms have t': "t' = t\<lparr>cols := filter (\<lambda>(n, c). n \<noteq> columna) (cols t)\<rparr>"
    by (auto simp: drop_col_def split: if_splits)
  show "columna \<notin> set (col_names t')" by (auto simp: t' col_names_def)
  show "set (col_names t') = set (col_names t) - {columna}"
    by (auto simp: t' col_names_def image_iff)
  show "idx t' = idx t" by (simp add: t')
  have "map_of (filter (\<lambda>(n, c). n \<noteq> columna) xs) n = map_of xs n" if "n \<noteq> columna" for xs :: "(string \<times> column) list"
    using that by (induction xs) auto
  then show "n \<noteq> columna \<Longrightarrow> get_col t' n = get_col t n"
    by (simp add: t' get_col_def)
qed

lemma agrupar_nth:
  "i < length c \<Longrightarrow> agrupar cats c ! i =
     (case c ! i of Txt cat \<Rightarrow> if cat \<in> set cats then cat else ''OTROS'' | _ \<Rightarrow> ''OTROS'')"
  by (simp add: agrupar_def)

lemma length_agrupar [simp]: "length (agrupar cats c) = length c"
  by (simp add: agrupar_def)

lemma dummificar_general:
  assumes df0: "df0 < length s" and c: "get_col (s ! df0) columna = Inr c"
  shows "\<exists>s' r. dummificar_var_categorica s df0 columna cats referencia = (s', Inr r)
     \<and> r < length s' \<and> length s \<le> r \<and> take (length s) s' = s
     \<and> idx (s' ! r) = idx (s ! df0)
     \<and> columna \<notin> set (col_names (s' ! r))
     \<and> set (col_names (s' ! r)) =
          (set (col_names (s ! df0)) - {columna})
          \<union> (\<lambda>cat. columna @ ''_'' @ cat) ` (set (agrupar cats c) - {referencia})
     \<and> (\<forall>cat\<in>set (agrupar cats c) - {referencia}.
            get_col (s' ! r) (columna @ ''_'' @ cat)
              = Inr (map (\<lambda>v. if v = cat then Num 1 else Num 0) (agrupar cats c)))
     \<and> (\<forall>n. n \<noteq> columna \<and> n \<notin> (\<lambda>cat. columna @ ''_'' @ cat) ` (set (agrupar cats c) - {referencia})
            \<longrightarrow> get_col (s' ! r) n = get_col (s ! df0) n)"
proof -
  let ?nm = "\<lambda>cat. columna @ ''_'' @ cat"
  let ?g = "agrupar cats c"
  let ?categorias = "filter (\<lambda>cat. cat \<noteq> referencia) (unique ?g)"
  let ?t = "s ! df0"
  let ?df = "length s"
  let ?s1 = "s @ [?t]"
  define t2 where "t2 = set_col columna (map Txt ?g) ?t"
  let ?s2 = "?s1[?df := t2]"
  have s2: "?s2 = s @ [t2]" by simp
  have at2: "?s2 ! ?df = t2" by simp
  have cats_set: "set ?categorias = set ?g - {referencia}" by auto
  have p1: "?df < length ?s2" by simp
  have p2: "get_col (?s2 ! ?df) columna = Inr (map Txt ?g)"
    by (simp only: at2) (simp add: t2_def get_col_set_col)
  from dummy_loop [OF p1 p2, of ?categorias] obtain s3 where
    run: "for_cols (dummy_col columna) ?s2 ?df ?categorias = (s3, Inr ?df)"
    and len: "length s3 = length ?s2"
    and oth: "\<forall>r. r \<noteq> ?df \<longrightarrow> s3 ! r = ?s2 ! r"
    and ix: "idx (s3 ! ?df) = idx (?s2 ! ?df)"
    and ind: "\<forall>cat\<in>set ?categorias. get_col (s3 ! ?df) (?nm cat)
                = Inr (map (\<lambda>v. if v = Txt cat then Num 1 else Num 0) (map Txt ?g))"
    and rest: "\<forall>n. n \<notin> ?nm ` set ?categorias \<longrightarrow> get_col (s3 ! ?df) n = get_col (?s2 ! ?df) n"
    and nms: "set (col_names (s3 ! ?df)) = set (col_names (?s2 ! ?df)) \<union> ?nm ` set ?categorias"
    by blast
  let ?t3 = "s3 ! ?df"
  have nms3: "set (col_names ?t3) = insert columna (set (col_names ?t)) \<union> ?nm ` set ?categorias"
    using nms by (simp only: at2) (simp add: t2_def)
  then have mem: "columna \<in> set (col_names ?t3)" by simp
  define t' where "t' = ?t3\<lparr>cols := filter (\<lambda>(n, c). n \<noteq> columna) (cols ?t3)\<rparr>"
  have dr: "drop_col columna ?t3 = Inr t'" using mem by (simp add: drop_col_def t'_def)
  have g0: "get_col (?s1 ! ?df) columna = Inr c" using c by simp
  have res: "dummificar_var_categorica s df0 columna cats referencia = (s3 @ [t'], Inr (length s3))"
    using g0 run dr
    by (simp add: dummificar_var_categorica_def copy_frame_def Let_def t2_def del: for_cols.simps)
  let ?s' = "s3 @ [t']"
  let ?r = "length s3"
  have at: "?s' ! ?r = t'" by simp
  have l3: "length s3 = Suc (length s)" using len by simp
  have tk: "take (length s) ?s' = s"
  proof (rule nth_equalityI)
    show "length (take (length s) ?s') = length s" using l3 by simp
    fix i assume "i < length (take (length s) ?s')"
    then have i: "i < length s" by simp
    have "take (length s) ?s' ! i = ?s' ! i" using i by (rule nth_take)
    also have "\<dots> = s3 ! i" using i l3 by (simp add: nth_append)
    also have "\<dots> = ?s2 ! i" using oth i by simp
    also have "\<dots> = s ! i" using i by (simp add: nth_append)
    finally show "take (length s) ?s' ! i = s ! i" .
  qed
  have ixr: "idx t' = idx ?t"
    using get_col_drop_col(4) [OF dr] ix by (simp only: at2) (simp add: t2_def)
  have notin: "columna \<notin> set (col_names t')" by (rule get_col_drop_col(1) [OF dr])
  have nmsr: "set (col_names t') = (set (col_names ?t) - {columna}) \<union> ?nm ` (set ?g - {referencia})"
  proof -
    have "columna \<notin> ?nm ` set ?categorias" using dummy_name_neq [of columna] by (auto simp: image_iff)
    then show ?thesis
      using get_col_drop_col(3) [OF dr] nms3 cats_set by auto
  qed
  have indr: "get_col t' (?nm cat) = Inr (map (\<lambda>v. if v = cat then Num 1 else Num 0) ?g)"
    if "cat \<in> set ?g - {referencia}" for cat
  proof -
    from that have "cat \<in> set ?categorias" by (simp only: cats_set)
    with ind have "get_col ?t3 (?nm cat) = Inr (map (\<lambda>v. if v = Txt cat then Num 1 else Num 0) (map Txt ?g))"
      by blast
    moreover have "get_col t' (?nm cat) = get_col ?t3 (?nm cat)"
      by (rule get_col_drop_col(2) [OF dr]) (rule dummy_name_neq)
    ultimately show ?thesis by (simp add: comp_def)
  qed
  have restr: "get_col t' n = get_col ?t n"
    if "n \<noteq> columna \<and> n \<notin> ?nm ` (set ?g - {referencia})" for n
  proof -
    from that have n1: "n \<noteq> columna" by blast
    from that have n2: "n \<notin> ?nm ` set ?categorias" unfolding cats_set by blast
    have "get_col t' n = get_col ?t3 n" by (rule get_col_drop_col(2) [OF dr n1])
    also have "\<dots> = get_col (?s2 ! ?df) n" using rest n2 by blast
    also have "\<dots> = get_col t2 n" by (simp only: at2)
    also have "\<dots> = get_col ?t n" using n1 by (simp add: t2_def get_col_set_col)
    finally show ?thesis .
  qed
  have "?r < length ?s'" "length s \<le> ?r" using l3 by simp_all
  with res tk ixr notin nmsr indr restr show ?thesis
    by (intro exI [of _ ?s'] exI [of _ ?r]) (simp only: at, blast)
qed

lemma agrupar_ejemplo:
  "agrupar [''X'', ''Y''] [Txt ''X'', Txt ''Z'', Txt ''Y'', Txt ''W''] = [''X'', ''OTROS'', ''Y'', ''OTROS'']"
  by (simp add: agrupar_def)

lemma dummificar_ejemplo_OTHER:
  "dummificar_var_categorica [ejemplo_categorias] 0 ''c'' [''X'', ''Y''] ''OTHER'' =
     ([ejemplo_categorias,
       \<lparr>idx = [0, 1, 2, 3],
        cols = [(''c'', [Txt ''X'', Txt ''OTROS'', Txt ''Y'', Txt ''OTROS'']),
                (''c_X'', [Num 1, Num 0, Num 0, Num 0]),
                (''c_OTROS'', [Num 0, Num 1, Num 0, Num 1]),
                (''c_Y'', [Num 0, Num 0, Num 1, Num 0])]\<rparr>,
       \<lparr>idx = [0, 1, 2, 3],
        cols = [(''c_X'', [Num 1, Num 0, Num 0, Num 0]),
                (''c_OTROS'', [Num 0, Num 1, Num 0, Num 1]),
                (''c_Y'', [Num 0, Num 0, Num 1, Num 0])]\<rparr>], Inr 2)"
  by (simp add: dummificar_var_categorica_def copy_frame_def get_col_def set_col_def col_names_def
      agrupar_def unique_def dummy_col_def np_where_def broadcast_def drop_col_def Let_def
      ejemplo_categorias_def)

lemma dummificar_ejemplo_OTROS:
  "dummificar_var_categorica [ejemplo_categorias] 0 ''c'' [''X'', ''Y''] ''OTROS'' =
     ([ejemplo_categorias,
       \<lparr>idx = [0, 1, 2, 3],
        cols = [(''c'', [Txt ''X'', Txt ''OTROS'', Txt ''Y'', Txt ''OTROS'']),
                (''c_X'', [Num 1, Num 0, Num 0, Num 0]),
                (''c_Y'', [Num 0, Num 0, Num 1, Num 0])]\<rparr>,
       \<lparr>idx = [0, 1, 2, 3],
        cols = [(''c_X'', [Num 1, Num 0, Num 0, Num 0]),
                (''c_Y'', [Num 0, Num 0, Num 1, Num 0])]\<rparr>], Inr 2)"
  by (simp add: dummificar_var_categorica_def copy_frame_def get_col_def set_col_def col_names_def
      agrupar_def unique_def dummy_col_def np_where_def broadcast_def drop_col_def Let_def
      ejemplo_categorias_def)

text \<open>
  C1 (as the code has it). For every store, frame holding the target column, preserve-list
  and reference label: every value of the target column that is not in the preserve-list
  is rewritten to the literal label \<open>OTROS\<close>, whatever the reference label is. The call
  raises nothing and returns a new frame over the same rows, without the target column,
  whose column names are the other columns of the input and one indicator column, named
  source column, underscore, category, per distinct value present after the rewriting
  except the reference label; each indicator holds 1 where the rewritten value is its
  category and 0 elsewhere. With preserve-list \<open>[X, Y]\<close> and input \<open>[X, Z, Y, W]\<close> the
  rewritten values are \<open>[X, OTROS, Y, OTROS]\<close>; with reference \<open>OTHER\<close> the indicators
  are those of \<open>X\<close>, \<open>OTROS\<close> and \<open>Y\<close>, and with reference \<open>OTROS\<close> exactly those of
  \<open>X\<close> and \<open>Y\<close>.
\<close>

theorem dummificar_contrato:
  assumes "df0 < length s" and "get_col (s ! df0) columna = Inr c"
  shows "(\<forall>i<length c. agrupar cats c ! i =
            (case c ! i of Txt cat \<Rightarrow> if cat \<in> set cats then cat else ''OTROS'' | _ \<Rightarrow> ''OTROS''))
     \<and> (\<exists>s' r. dummificar_var_categorica s df0 columna cats referencia = (s', Inr r)
           \<and> idx (s' ! r) = idx (s ! df0)
           \<and> columna \<notin> set (col_names (s' ! r))
           \<and> set (col_names (s' ! r)) =
                (set (col_names (s ! df0)) - {columna})
                \<union> (\<lambda>cat. columna @ ''_'' @ cat) ` (set (agrupar cats c) - {referencia})
           \<and> (\<forall>cat\<in>set (agrupar cats c) - {referencia}.
                  get_col (s' ! r) (columna @ ''_'' @ cat)
                    = Inr (map (\<lambda>v. if v = cat then Num 1 else Num 0) (agrupar cats c))))
     \<and> agrupar [''X'', ''Y''] [Txt ''X'', Txt ''Z'', Txt ''Y'', Txt ''W'']
          = [''X'', ''OTROS'', ''Y'', ''OTROS'']
     \<and> col_names (fst (dummificar_var_categorica [ejemplo_categorias] 0 ''c'' [''X'', ''Y''] ''OTHER'') ! 2)
          = [''c_X'', ''c_OTROS'', ''c_Y'']
     \<and> col_names (fst (dummificar_var_categorica [ejemplo_categorias] 0 ''c'' [''X'', ''Y''] ''OTROS'') ! 2)
          = [''c_X'', ''c_Y'']"
proof -
  have a: "\<forall>i<length c. agrupar cats c ! i =
            (case c ! i of Txt cat \<Rightarrow> if cat \<in> set cats then cat else ''OTROS'' | _ \<Rightarrow> ''OTROS'')"
    by (simp add: agrupar_nth)
  have b: "\<exists>s' r. dummificar_var_categorica s df0 columna cats referencia = (s', Inr r)
           \<and> idx (s' ! r) = idx (s ! df0)
           \<and> columna \<notin> set (col_names (s' ! r))
           \<and> set (col_names (s' ! r)) =
                (set (col_names (s ! df0)) - {columna})
                \<union> (\<lambda>cat. columna @ ''_'' @ cat) ` (set (agrupar cats c) - {referencia})
           \<and> (\<forall>cat\<in>set (agrupar cats c) - {referencia}.
                  get_col (s' ! r) (columna @ ''_'' @ cat)
                    = Inr (map (\<lambda>v. if v = cat then Num 1 else Num 0) (agrupar cats c)))"
  proof -
    from dummificar_general [OF assms, of cats referencia] obtain s' r where
      r1: "dummificar_var_categorica s df0 columna cats referencia = (s', Inr r)"
      and r2: "idx (s' ! r) = idx (s ! df0)"
      and r3: "columna \<notin> set (col_names (s' ! r))"
      and r4: "set (col_names (s' ! r)) =
                (set (col_names (s ! df0)) - {columna})
                \<union> (\<lambda>cat. columna @ ''_'' @ cat) ` (set (agrupar cats c) - {referencia})"
      and r5: "\<forall>cat\<in>set (agrupar cats c) - {referencia}.
                  get_col (s' ! r) (columna @ ''_'' @ cat)
                    = Inr (map (\<lambda>v. if v = cat then Num 1 else Num 0) (agrupar cats c))"
      by (elim exE conjE)
    show ?thesis
      by (rule exI [of _ s'], rule exI [of _ r]) (intro conjI r1 r2 r3 r4 r5)
  qed
  have c1: "col_names (fst (dummificar_var_categorica [ejemplo_categorias] 0 ''c'' [''X'', ''Y''] ''OTHER'') ! 2)
          = [''c_X'', ''c_OTROS'', ''c_Y'']"
    by (simp add: dummificar_ejemplo_OTHER col_names_def)
  have c2: "col_names (fst (dummificar_var_categorica [ejemplo_categorias] 0 ''c'' [''X'', ''Y''] ''OTROS'') ! 2)
          = [''c_X'', ''c_Y'']"
    by (simp add: dummificar_ejemplo_OTROS col_names_def)
  from a b agrupar_ejemplo c1 c2 show ?thesis by (intro conjI)
qed

theorem dummificar_contrato_witness:
  "(0::nat) < length [ejemplo_categorias]
   \<and> get_col ([ejemplo_categorias] ! 0) ''c'' = Inr [Txt ''X'', Txt ''Z'', Txt ''Y'', Txt ''W'']
   \<and> (\<exists>s' r. dummificar_var_categorica [ejemplo_categorias] 0 ''c'' [''X'', ''Y''] ''OTHER'' = (s', Inr r)
         \<and> ''c'' \<notin> set (col_names (s' ! r))
         \<and> idx (s' ! r) = idx ([ejemplo_categorias] ! 0))"
proof -
  have h1: "(0::nat) < length [ejemplo_categorias]" by simp
  have h2: "get_col ([ejemplo_categorias] ! 0) ''c'' = Inr [Txt ''X'', Txt ''Z'', Txt ''Y'', Txt ''W'']"
    by (simp add: ejemplo_categorias_def get_col_def)
  from dummificar_contrato [OF h1 h2, of "[''X'', ''Y'']" "''OTHER''"]
  obtain s' r where
    r1: "dummificar_var_categorica [ejemplo_categorias] 0 ''c'' [''X'', ''Y''] ''OTHER'' = (s', Inr r)"
    and r2: "idx (s' ! r) = idx ([ejemplo_categorias] ! 0)"
    and r3: "''c'' \<notin> set (col_names (s' ! r))"
    by (elim exE conjE)
  have "\<exists>s' r. dummificar_var_categorica [ejemplo_categorias] 0 ''c'' [''X'', ''Y''] ''OTHER'' = (s', Inr r)
         \<and> ''c'' \<notin> set (col_names (s' ! r))
         \<and> idx (s' ! r) = idx ([ejemplo_categorias] ! 0)"
    by (rule exI [of _ s'], rule exI [of _ r]) (intro conjI r1 r2 r3)
  with h1 h2 show ?thesis by (intro conjI)
qed

text \<open>
  With reference \<open>OTHER\<close> the rewritten values are not \<open>[X, OTHER, Y, OTHER]\<close>, and the
  indicator columns are not exactly those of \<open>X\<close> and \<open>Y\<close>: there is one for \<open>OTROS\<close>.
\<close>

theorem dummificar_referencia_OTHER:
  "agrupar [''X'', ''Y''] [Txt ''X'', Txt ''Z'', Txt ''Y'', Txt ''W'']
      \<noteq> [''X'', ''OTHER'', ''Y'', ''OTHER'']
   \<and> snd (dummificar_var_categorica [ejemplo_categorias] 0 ''c'' [''X'', ''Y''] ''OTHER'') = Inr 2
   \<and> col_names (fst (dummificar_var_categorica [ejemplo_categorias] 0 ''c'' [''X'', ''Y''] ''OTHER'') ! 2)
        \<noteq> [''c_X'', ''c_Y'']
   \<and> get_col (fst (dummificar_var_categorica [ejemplo_categorias] 0 ''c'' [''X'', ''Y''] ''OTHER'') ! 2)
        ''c_OTROS'' = Inr [Num 0, Num 1, Num 0, Num 1]"
  by (simp add: dummificar_ejemplo_OTHER agrupar_ejemplo col_names_def get_col_def)

section \<open>The model loader\<close>

text \<open>
  C3 (as the code has it). Loading raises nothing, whatever \<^verbatim>\<open>joblib.load\<close> does. When
  it gives a model, the loader prints that the model was loaded and returns it. When the
  path does not resolve (\<^verbatim>\<open>FileNotFoundError\<close>), the loader prints the not-found line and
  returns \<^verbatim>\<open>None\<close>; on any other failure it prints the load-failure line with the error
  and returns \<^verbatim>\<open>None\<close>. The two failures differ in the printed line only.
\<close>

theorem cargar_modelo_no_lanza:
  "(\<forall>e. snd (cargar_modelo joblib_load ruta) \<noteq> Inl e)
   \<and> (\<forall>modelo. joblib_load ruta = Inr modelo \<longrightarrow>
         cargar_modelo joblib_load ruta = ([ModeloCargado ruta], Inr (Some modelo)))
   \<and> (\<forall>msg. joblib_load ruta = Inl (FileNotFoundError msg) \<longrightarrow>
         cargar_modelo joblib_load ruta = ([ArchivoNoEncontrado ruta], Inr None))
   \<and> (\<forall>e. joblib_load ruta = Inl e \<longrightarrow> (\<forall>msg. e \<noteq> FileNotFoundError msg) \<longrightarrow>
         cargar_modelo joblib_load ruta = ([ErrorAlCargar e], Inr None))"
proof -
  have a: "\<forall>e. snd (cargar_modelo joblib_load ruta) \<noteq> Inl e"
    by (simp add: cargar_modelo_def split: sum.splits py_exception.splits)
  have b: "\<forall>modelo. joblib_load ruta = Inr modelo \<longrightarrow>
         cargar_modelo joblib_load ruta = ([ModeloCargado ruta], Inr (Some modelo))"
    by (simp add: cargar_modelo_def)
  have c: "\<forall>msg. joblib_load ruta = Inl (FileNotFoundError msg) \<longrightarrow>
         cargar_modelo joblib_load ruta = ([ArchivoNoEncontrado ruta], Inr None)"
    by (simp add: cargar_modelo_def)
  have d: "\<forall>e. joblib_load ruta = Inl e \<longrightarrow> (\<forall>msg. e \<noteq> FileNotFoundError msg) \<longrightarrow>
         cargar_modelo joblib_load ruta = ([ErrorAlCargar e], Inr None)"
    by (simp add: cargar_modelo_def split: py_exception.splits)
  from a b c d show ?thesis by (intro conjI)
qed

theorem cargar_modelo_no_lanza_witness:
  "joblib_no_encontrado ''modelo.joblib'' = Inl (FileNotFoundError ''modelo.joblib'')
   \<and> cargar_modelo joblib_no_encontrado ''modelo.joblib''
        = ([ArchivoNoEncontrado ''modelo.joblib''], Inr None)
   \<and> joblib_corrupto ''modelo.joblib'' = Inl (OtherError ''invalid load key'')
   \<and> cargar_modelo joblib_corrupto ''modelo.joblib''
        = ([ErrorAlCargar (OtherError ''invalid load key'')], Inr None)
   \<and> joblib_ok ''modelo.joblib'' = Inr ()
   \<and> cargar_modelo joblib_ok ''modelo.joblib'' = ([ModeloCargado ''modelo.joblib''], Inr (Some ()))"
proof -
  have h1: "joblib_no_encontrado ''modelo.joblib'' = Inl (FileNotFoundError ''modelo.joblib'')"
    by (simp add: joblib_no_encontrado_def)
  have h2: "joblib_corrupto ''modelo.joblib'' = Inl (OtherError ''invalid load key'')"
    by (simp add: joblib_corrupto_def)
  have h3: "joblib_ok ''modelo.joblib'' = Inr ()"
    by (simp add: joblib_ok_def)
  have n: "\<forall>msg. OtherError ''invalid load key'' \<noteq> FileNotFoundError msg" by simp
  from cargar_modelo_no_lanza [of joblib_no_encontrado "''modelo.joblib''"] h1
  have c1: "cargar_modelo joblib_no_encontrado ''modelo.joblib''
        = ([ArchivoNoEncontrado ''modelo.joblib''], Inr None)" by blast
  from cargar_modelo_no_lanza [of joblib_corrupto "''modelo.joblib''"] h2 n
  have c2: "cargar_modelo joblib_corrupto ''modelo.joblib''
        = ([ErrorAlCargar (OtherError ''invalid load key'')], Inr None)" by blast
  from cargar_modelo_no_lanza [of joblib_ok "''modelo.joblib''"] h3
  have c3: "cargar_modelo joblib_ok ''modelo.joblib'' = ([ModeloCargado ''modelo.joblib''], Inr (Some ()))"
    by blast
  from h1 c1 h2 c2 h3 c3 show ?thesis by (intro conjI)
qed

text \<open>
  Neither the missing file nor the failed load reaches the caller as an exception: the
  call returns \<^verbatim>\<open>None\<close>.
\<close>

theorem cargar_modelo_traga_errores:
  "snd (cargar_modelo joblib_no_encontrado ''modelo.joblib'') = Inr None
   \<and> snd (cargar_modelo joblib_no_encontrado ''modelo.joblib'') \<noteq> Inl (FileNotFoundError ''modelo.joblib'')
   \<and> snd (cargar_modelo joblib_corrupto ''modelo.joblib'') = Inr None
   \<and> snd (cargar_modelo joblib_corrupto ''modelo.joblib'') \<noteq> Inl (OtherError ''invalid load key'')"
  by (simp add: cargar_modelo_def joblib_no_encontrado_def joblib_corrupto_def)

section \<open>The column selector\<close>

lemma filter_key_distinct:
  "distinct (map fst xs) \<Longrightarrow> map_of xs k = Some w \<Longrightarrow> filter (\<lambda>(n, c). n = k) xs = [(k, w)]"
proof (induction xs)
  case Nil
  then show ?case by simp
next
  case (Cons a xs)
  obtain n c where a: "a = (n, c)" by (cases a)
  show ?case
  proof (cases "n = k")
    case True
    with Cons.prems a have "k \<notin> fst ` set xs" and w: "c = w" by auto
    then have "filter (\<lambda>(n, c). n = k) xs = []"
      by (auto simp: filter_empty_conv dest: fst_in_set)
    with True a w show ?thesis by simp
  next
    case False
    with Cons a show ?thesis by simp
  qed
qed

lemma select_all_present:
  assumes d: "distinct (col_names t)" and sub: "set lista \<subseteq> set (col_names t)"
  shows "map fst (concat (map (\<lambda>k. filter (\<lambda>(n, c). n = k) (cols t)) lista)) = lista"
    and "\<forall>k\<in>set lista. map_of (concat (map (\<lambda>k. filter (\<lambda>(n, c). n = k) (cols t)) lista)) k
            = map_of (cols t) k"
    and "\<forall>(n, c)\<in>set (concat (map (\<lambda>k. filter (\<lambda>(n, c). n = k) (cols t)) lista)). (n, c) \<in> set (cols t)"
proof -
  have one: "\<exists>w. map_of (cols t) k = Some w \<and> filter (\<lambda>(n, c). n = k) (cols t) = [(k, w)]"
    if "k \<in> set (col_names t)" for k
  proof -
    from that have "map_of (cols t) k \<noteq> None"
      by (simp add: col_names_def map_of_None_iff)
    then obtain w where w: "map_of (cols t) k = Some w" by blast
    from d have "distinct (map fst (cols t))" by (simp add: col_names_def)
    from filter_key_distinct [OF this w] w show ?thesis by blast
  qed
  show "map fst (concat (map (\<lambda>k. filter (\<lambda>(n, c). n = k) (cols t)) lista)) = lista"
    using sub
  proof (induction lista)
    case Nil
    then show ?case by simp
  next
    case (Cons k ks)
    then obtain w where "filter (\<lambda>(n, c). n = k) (cols t) = [(k, w)]" using one [of k] by auto
    with Cons show ?case by simp
  qed
  show "\<forall>k\<in>set lista. map_of (concat (map (\<lambda>k. filter (\<lambda>(n, c). n = k) (cols t)) lista)) k
            = map_of (cols t) k"
    using sub
  proof (induction lista)
    case Nil
    then show ?case by simp
  next
    case (Cons k ks)
    then obtain w where w: "map_of (cols t) k = Some w" "filter (\<lambda>(n, c). n = k) (cols t) = [(k, w)]"
      using one [of k] by auto
    with Cons show ?case by auto
  qed
  show "\<forall>(n, c)\<in>set (concat (map (\<lambda>k. filter (\<lambda>(n, c). n = k) (cols t)) lista)). (n, c) \<in> set (cols t)"
    by auto
qed

lemma select_cols_ok:
  assumes d: "distinct (col_names t)" and sub: "set lista \<subseteq> set (col_names t)"
  shows "\<exists>t'. select_cols t lista = Inr t' \<and> col_names t' = lista \<and> idx t' = idx t
           \<and> (\<forall>k\<in>set lista. get_col t' k = get_col t k)
           \<and> (aligned t \<longrightarrow> aligned t')"
proof -
  let ?cs = "concat (map (\<lambda>k. filter (\<lambda>(n, c). n = k) (cols t)) lista)"
  let ?t' = "t\<lparr>cols := ?cs\<rparr>"
  from sub have "filter (\<lambda>k. k \<notin> set (col_names t)) lista = []"
    by (auto simp: filter_empty_conv)
  then have r: "select_cols t lista = Inr ?t'" by (simp add: select_cols_def)
  have n: "col_names ?t' = lista"
    using select_all_present(1) [OF d sub] by (simp add: col_names_def)
  have g: "\<forall>k\<in>set lista. get_col ?t' k = get_col t k"
    using select_all_present(2) [OF d sub] by (simp add: get_col_def)
  have a: "aligned t \<longrightarrow> aligned ?t'"
    using select_all_present(3) [OF d sub] by (auto simp: aligned_def list_all_iff)
  from r n g a show ?thesis by simp
qed

lemma select_cols_missing:
  assumes "\<not> set lista \<subseteq> set (col_names t)"
  shows "\<exists>ks. select_cols t lista = Inl (KeyError [] ks) \<and> set ks = set lista - set (col_names t)"
proof -
  let ?missing = "filter (\<lambda>k. k \<notin> set (col_names t)) lista"
  from assms have ne: "?missing \<noteq> []" by (auto simp: filter_empty_conv)
  have sm: "set ?missing = set lista - set (col_names t)" by auto
  show ?thesis
  proof (cases "filter (\<lambda>k. k \<in> set (col_names t)) lista = []")
    case True
    then have "set lista - set (col_names t) = set lista" by (auto simp: filter_empty_conv)
    with True ne show ?thesis by (simp add: select_cols_def)
  next
    case False
    with ne sm show ?thesis by (simp add: select_cols_def)
  qed
qed

text \<open>
  C6. Take a frame with distinct column names. When it has every requested column, the
  selector returns a new frame over the same rows whose columns are the requested ones,
  in the order of the request, each with the cells it had. When it lacks one, the
  selector raises a KeyError, and the columns its message names are exactly the requested
  columns that the frame lacks.
\<close>

theorem seleccion_variables_contrato:
  assumes "distinct (col_names (s ! df))"
  shows "(set lista_vars \<subseteq> set (col_names (s ! df)) \<longrightarrow>
            (\<exists>t'. seleccion_variables s df lista_vars = (s @ [t'], Inr (length s))
                 \<and> col_names t' = lista_vars \<and> idx t' = idx (s ! df)
                 \<and> (\<forall>k\<in>set lista_vars. get_col t' k = get_col (s ! df) k)))
     \<and> (\<not> set lista_vars \<subseteq> set (col_names (s ! df)) \<longrightarrow>
            (\<exists>ks. seleccion_variables s df lista_vars =
                     (s, Inl (KeyError ''Al menos un campo no pertenece al conjunto de variables: '' ks))
                 \<and> set ks = set lista_vars - set (col_names (s ! df))))"
proof (intro conjI impI)
  assume sub: "set lista_vars \<subseteq> set (col_names (s ! df))"
  from select_cols_ok [OF assms sub] obtain t' where
    r: "select_cols (s ! df) lista_vars = Inr t'" and n: "col_names t' = lista_vars"
    and i: "idx t' = idx (s ! df)" and g: "\<forall>k\<in>set lista_vars. get_col t' k = get_col (s ! df) k"
    by (elim exE conjE)
  from r have "seleccion_variables s df lista_vars = (s @ [t'], Inr (length s))"
    by (simp add: seleccion_variables_def)
  with n i g show "\<exists>t'. seleccion_variables s df lista_vars = (s @ [t'], Inr (length s))
                 \<and> col_names t' = lista_vars \<and> idx t' = idx (s ! df)
                 \<and> (\<forall>k\<in>set lista_vars. get_col t' k = get_col (s ! df) k)"
    by (intro exI [of _ t'] conjI)
next
  assume nsub: "\<not> set lista_vars \<subseteq> set (col_names (s ! df))"
  from select_cols_missing [OF nsub] obtain ks where
    r: "select_cols (s ! df) lista_vars = Inl (KeyError [] ks)"
    and k: "set ks = set lista_vars - set (col_names (s ! df))"
    by (elim exE conjE)
  from r have "seleccion_variables s df lista_vars =
      (s, Inl (KeyError ''Al menos un campo no pertenece al conjunto de variables: '' ks))"
    by (simp add: seleccion_variables_def)
  with k show "\<exists>ks. seleccion_variables s df lista_vars =
                     (s, Inl (KeyError ''Al menos un campo no pertenece al conjunto de variables: '' ks))
                 \<and> set ks = set lista_vars - set (col_names (s ! df))"
    by (intro exI [of _ ks] conjI)
qed

theorem seleccion_variables_contrato_witness:
  "distinct (col_names ([ejemplo_numerico] ! 0))
   \<and> set [''b'', ''a''] \<subseteq> set (col_names ([ejemplo_numerico] ! 0))
   \<and> (\<exists>t'. seleccion_variables [ejemplo_numerico] 0 [''b'', ''a''] = ([ejemplo_numerico] @ [t'], Inr 1)
          \<and> col_names t' = [''b'', ''a''])
   \<and> \<not> set [''q'', ''a'', ''p''] \<subseteq> set (col_names ([ejemplo_numerico] ! 0))
   \<and> (\<exists>ks. seleccion_variables [ejemplo_numerico] 0 [''q'', ''a'', ''p''] =
              ([ejemplo_numerico],
               Inl (KeyError ''Al menos un campo no pertenece al conjunto de variables: '' ks))
          \<and> set ks = {''q'', ''p''})"
proof -
  have h: "distinct (col_names ([ejemplo_numerico] ! 0))"
    by (simp add: ejemplo_numerico_def col_names_def)
  have nm: "set (col_names ejemplo_numerico) = {''a'', ''b'', ''z''}"
    by (simp add: ejemplo_numerico_def col_names_def)
  have s1: "set [''b'', ''a''] \<subseteq> set (col_names ([ejemplo_numerico] ! 0))"
    by (simp add: nm)
  have s2: "\<not> set [''q'', ''a'', ''p''] \<subseteq> set (col_names ([ejemplo_numerico] ! 0))"
    by (simp add: nm)
  have d: "set [''q'', ''a'', ''p''] - set (col_names ([ejemplo_numerico] ! 0)) = {''q'', ''p''}"
    by (simp add: nm) auto
  from seleccion_variables_contrato [OF h, of "[''b'', ''a'']"] s1
  obtain t' where a1: "seleccion_variables [ejemplo_numerico] 0 [''b'', ''a''] = ([ejemplo_numerico] @ [t'], Inr (length [ejemplo_numerico]))"
    and a2: "col_names t' = [''b'', ''a'']"
    by blast
  have a: "\<exists>t'. seleccion_variables [ejemplo_numerico] 0 [''b'', ''a''] = ([ejemplo_numerico] @ [t'], Inr 1)
          \<and> col_names t' = [''b'', ''a'']"
    using a1 a2 by (intro exI [of _ t']) simp
  from seleccion_variables_contrato [OF h, of "[''q'', ''a'', ''p'']"] s2
  obtain ks where b1: "seleccion_variables [ejemplo_numerico] 0 [''q'', ''a'', ''p''] =
              ([ejemplo_numerico],
               Inl (KeyError ''Al menos un campo no pertenece al conjunto de variables: '' ks))"
    and b2: "set ks = set [''q'', ''a'', ''p''] - set (col_names ([ejemplo_numerico] ! 0))"
    by blast
  have b: "\<exists>ks. seleccion_variables [ejemplo_numerico] 0 [''q'', ''a'', ''p''] =
              ([ejemplo_numerico],
               Inl (KeyError ''Al menos un campo no pertenece al conjunto de variables: '' ks))
          \<and> set ks = {''q'', ''p''}"
    using b1 b2 d by (intro exI [of _ ks]) simp
  from h s1 a s2 b show ?thesis by (intro conjI)
qed

section \<open>The scorer\<close>

lemma ejecutar_modelo_falla:
  assumes "predict_proba (s ! df0) = Inl e"
  shows "ejecutar_modelo predict_proba s df0 umbral = (s @ [s ! df0], [ErrorAlEjecutar e], Inr (length s))"
  using assms by (simp add: ejecutar_modelo_def copy_frame_def)

text \<open>
  C4. For every store, frame, threshold and model whose \<^verbatim>\<open>predict_proba\<close> raises on the
  frame: the scorer raises nothing, and the frame it returns has the content of the
  original, rows and columns unchanged; the caller's frame is unchanged too. A frame that
  had no \<open>PROB_FRAUDE\<close> or \<open>PRED_FRAUDE\<close> column is returned without one.
\<close>

theorem ejecutar_modelo_degrada:
  assumes "df0 < length s" and "predict_proba (s ! df0) = Inl e"
  shows "\<exists>s' out r. ejecutar_modelo predict_proba s df0 umbral = (s', out, Inr r)
     \<and> s' ! r = s ! df0 \<and> s' ! df0 = s ! df0
     \<and> (''PROB_FRAUDE'' \<notin> set (col_names (s ! df0)) \<longrightarrow> ''PROB_FRAUDE'' \<notin> set (col_names (s' ! r)))
     \<and> (''PRED_FRAUDE'' \<notin> set (col_names (s ! df0)) \<longrightarrow> ''PRED_FRAUDE'' \<notin> set (col_names (s' ! r)))"
proof -
  let ?s' = "s @ [s ! df0]"
  have r: "ejecutar_modelo predict_proba s df0 umbral = (?s', [ErrorAlEjecutar e], Inr (length s))"
    using assms(2) by (rule ejecutar_modelo_falla [of predict_proba s df0 e umbral])
  have a: "?s' ! length s = s ! df0" by simp
  have b: "?s' ! df0 = s ! df0" using assms(1) by (simp add: nth_append)
  show ?thesis
    by (rule exI [of _ ?s'], rule exI [of _ "[ErrorAlEjecutar e]"], rule exI [of _ "length s"])
       (simp only: r a b simp_thms)
qed

theorem ejecutar_modelo_degrada_witness:
  "(0::nat) < length [ejemplo_puntuar]
   \<and> modelo_falla ([ejemplo_puntuar] ! 0) = Inl (OtherError ''feature names mismatch'')
   \<and> (\<exists>s' out r. ejecutar_modelo modelo_falla [ejemplo_puntuar] 0 umbral_default = (s', out, Inr r)
         \<and> s' ! r = ejemplo_puntuar \<and> s' ! 0 = ejemplo_puntuar
         \<and> ''PROB_FRAUDE'' \<notin> set (col_names (s' ! r))
         \<and> ''PRED_FRAUDE'' \<notin> set (col_names (s' ! r)))"
proof -
  have h1: "(0::nat) < length [ejemplo_puntuar]" by simp
  have h2: "modelo_falla ([ejemplo_puntuar] ! 0) = Inl (OtherError ''feature names mismatch'')"
    by (simp add: modelo_falla_def)
  have n1: "''PROB_FRAUDE'' \<notin> set (col_names ([ejemplo_puntuar] ! 0))"
    by (simp add: ejemplo_puntuar_def col_names_def)
  have n2: "''PRED_FRAUDE'' \<notin> set (col_names ([ejemplo_puntuar] ! 0))"
    by (simp add: ejemplo_puntuar_def col_names_def)
  from ejecutar_modelo_degrada [of 0 "[ejemplo_puntuar]" modelo_falla
      "OtherError ''feature names mismatch''" umbral_default, OF h1 h2] obtain s' out r where
    r1: "ejecutar_modelo modelo_falla [ejemplo_puntuar] 0 umbral_default = (s', out, Inr r)"
    and r2: "s' ! r = [ejemplo_puntuar] ! 0" and r3: "s' ! 0 = [ejemplo_puntuar] ! 0"
    and r4: "''PROB_FRAUDE'' \<notin> set (col_names ([ejemplo_puntuar] ! 0)) \<longrightarrow> ''PROB_FRAUDE'' \<notin> set (col_names (s' ! r))"
    and r5: "''PRED_FRAUDE'' \<notin> set (col_names ([ejemplo_puntuar] ! 0)) \<longrightarrow> ''PRED_FRAUDE'' \<notin> set (col_names (s' ! r))"
    by (elim exE conjE)
  from r2 have r2': "s' ! r = ejemplo_puntuar" by simp
  from r3 have r3': "s' ! 0 = ejemplo_puntuar" by simp
  from r4 n1 have r4': "''PROB_FRAUDE'' \<notin> set (col_names (s' ! r))" by (rule mp)
  from r5 n2 have r5': "''PRED_FRAUDE'' \<notin> set (col_names (s' ! r))" by (rule mp)
  have "\<exists>s' out r. ejecutar_modelo modelo_falla [ejemplo_puntuar] 0 umbral_default = (s', out, Inr r)
         \<and> s' ! r = ejemplo_puntuar \<and> s' ! 0 = ejemplo_puntuar
         \<and> ''PROB_FRAUDE'' \<notin> set (col_names (s' ! r))
         \<and> ''PRED_FRAUDE'' \<notin> set (col_names (s' ! r))"
    by (rule exI [of _ s'], rule exI [of _ out], rule exI [of _ r]) (intro conjI r1 r2' r3' r4' r5')
  with h1 h2 show ?thesis by (intro conjI)
qed

lemma ejecutar_modelo_exito:
  assumes len: "length proba = length (idx (s ! df0))"
    and pp: "predict_proba (s ! df0) = Inr proba"
    and n1: "''PROB_FRAUDE'' \<notin> set (col_names (s ! df0))"
    and n2: "''PRED_FRAUDE'' \<notin> set (col_names (s ! df0))"
  shows "ejecutar_modelo predict_proba s df0 umbral =
     (s @ [(s ! df0)\<lparr>cols := cols (s ! df0) @
              [(''PROB_FRAUDE'', map (\<lambda>p. Num (snd p)) proba),
               (''PRED_FRAUDE'', map (\<lambda>p. if snd p \<ge> umbral then Num 1 else Num 0) proba)]\<rparr>],
      [PrediccionesGeneradas umbral], Inr (length s))"
proof -
  let ?t = "s ! df0"
  let ?pc = "map (\<lambda>p. Num (snd p)) proba"
  let ?t2 = "set_col ''PROB_FRAUDE'' ?pc ?t"
  have as: "assign_array ''PROB_FRAUDE'' ?pc ?t = Inr ?t2" using len by (simp add: assign_array_def)
  have g: "get_col ?t2 ''PROB_FRAUDE'' = Inr ?pc" by (simp add: get_col_set_col)
  have cm: "cmp_col (\<lambda>x. x \<ge> umbral) ?pc = Inr (map (cell_test (\<lambda>x. x \<ge> umbral)) ?pc)"
    by (simp add: cmp_col_def list_ex_iff)
  have t2: "?t2 = ?t\<lparr>cols := cols ?t @ [(''PROB_FRAUDE'', ?pc)]\<rparr>" using n1 by (simp add: set_col_def)
  have n2': "''PRED_FRAUDE'' \<notin> set (col_names ?t2)" using n2 by simp
  have t3: "set_col ''PRED_FRAUDE'' v ?t2 =
      ?t\<lparr>cols := cols ?t @ [(''PROB_FRAUDE'', ?pc), (''PRED_FRAUDE'', v)]\<rparr>" for v
    using n2' by (simp add: set_col_def [of "''PRED_FRAUDE''"] t2)
  show ?thesis
    using pp as g cm
    by (simp add: ejecutar_modelo_def copy_frame_def Let_def t3 np_where_broadcast_both
        cell_test_def comp_def)
qed

lemma ejecutar_modelo_ejemplo:
  "ejecutar_modelo modelo_ejemplo [ejemplo_puntuar] 0 umbral_default =
     ([ejemplo_puntuar,
       \<lparr>idx = [0, 1],
        cols = [(''Monto'', [Num 10, Num 20]),
                (''PROB_FRAUDE'', [Num (6 / 10), Num (5 / 10)]),
                (''PRED_FRAUDE'', [Num 1, Num 0])]\<rparr>],
      [PrediccionesGeneradas umbral_default], Inr 1)"
  by (simp add: ejecutar_modelo_def copy_frame_def modelo_ejemplo_def ejemplo_puntuar_def
      assign_array_def set_col_def col_names_def get_col_def cmp_col_def cell_test_def
      np_where_def broadcast_def umbral_default_def Let_def)

lemma ejecutar_modelo_ya_puntuado:
  "ejecutar_modelo modelo_ejemplo [ejemplo_ya_puntuado] 0 umbral_default =
     ([ejemplo_ya_puntuado,
       \<lparr>idx = [0, 1],
        cols = [(''PROB_FRAUDE'', [Num (6 / 10), Num (5 / 10)]),
                (''Monto'', [Num 10, Num 20]),
                (''PRED_FRAUDE'', [Num 1, Num 0])]\<rparr>],
      [PrediccionesGeneradas umbral_default], Inr 1)"
  by (simp add: ejecutar_modelo_def copy_frame_def modelo_ejemplo_def ejemplo_ya_puntuado_def
      assign_array_def set_col_def col_names_def get_col_def cmp_col_def cell_test_def
      np_where_def broadcast_def umbral_default_def Let_def)

text \<open>
  C5 (as the code has it). Take a frame with no column named \<open>PROB_FRAUDE\<close> or
  \<open>PRED_FRAUDE\<close>, and a model that returns one row of probabilities per row of the frame.
  Then the scorer returns a new frame over the same rows: the columns of the input, then
  \<open>PROB_FRAUDE\<close>, the second probability of each row, then \<open>PRED_FRAUDE\<close>, 1 where that
  probability is at least the threshold and 0 elsewhere. The default threshold is 0.565;
  with it the probabilities 0.6 and 0.5 give the predictions 1 and 0.
\<close>

theorem ejecutar_modelo_exito_contrato:
  assumes "predict_proba (s ! df0) = Inr proba"
    and "length proba = length (idx (s ! df0))"
    and "''PROB_FRAUDE'' \<notin> set (col_names (s ! df0))"
    and "''PRED_FRAUDE'' \<notin> set (col_names (s ! df0))"
  shows "(\<exists>s'. ejecutar_modelo predict_proba s df0 umbral
                 = (s', [PrediccionesGeneradas umbral], Inr (length s))
            \<and> idx (s' ! length s) = idx (s ! df0)
            \<and> cols (s' ! length s) =
                 cols (s ! df0) @
                   [(''PROB_FRAUDE'', map (\<lambda>p. Num (snd p)) proba),
                    (''PRED_FRAUDE'', map (\<lambda>p. if snd p \<ge> umbral then Num 1 else Num 0) proba)])
     \<and> umbral_default = 565 / 1000
     \<and> get_col (fst (ejecutar_modelo modelo_ejemplo [ejemplo_puntuar] 0 umbral_default) ! 1)
          ''PROB_FRAUDE'' = Inr [Num (6 / 10), Num (5 / 10)]
     \<and> get_col (fst (ejecutar_modelo modelo_ejemplo [ejemplo_puntuar] 0 umbral_default) ! 1)
          ''PRED_FRAUDE'' = Inr [Num 1, Num 0]"
proof -
  let ?t' = "(s ! df0)\<lparr>cols := cols (s ! df0) @
              [(''PROB_FRAUDE'', map (\<lambda>p. Num (snd p)) proba),
               (''PRED_FRAUDE'', map (\<lambda>p. if snd p \<ge> umbral then Num 1 else Num 0) proba)]\<rparr>"
  have r: "ejecutar_modelo predict_proba s df0 umbral =
      (s @ [?t'], [PrediccionesGeneradas umbral], Inr (length s))"
    using assms(2,1,3,4) by (rule ejecutar_modelo_exito [of proba s df0 predict_proba umbral])
  have a: "\<exists>s'. ejecutar_modelo predict_proba s df0 umbral
                 = (s', [PrediccionesGeneradas umbral], Inr (length s))
            \<and> idx (s' ! length s) = idx (s ! df0)
            \<and> cols (s' ! length s) =
                 cols (s ! df0) @
                   [(''PROB_FRAUDE'', map (\<lambda>p. Num (snd p)) proba),
                    (''PRED_FRAUDE'', map (\<lambda>p. if snd p \<ge> umbral then Num 1 else Num 0) proba)]"
    by (rule exI [of _ "s @ [?t']"]) (simp add: r)
  have b: "umbral_default = 565 / 1000" by (simp add: umbral_default_def)
  have c: "get_col (fst (ejecutar_modelo modelo_ejemplo [ejemplo_puntuar] 0 umbral_default) ! 1)
          ''PROB_FRAUDE'' = Inr [Num (6 / 10), Num (5 / 10)]"
    by (simp add: ejecutar_modelo_ejemplo get_col_def)
  have d: "get_col (fst (ejecutar_modelo modelo_ejemplo [ejemplo_puntuar] 0 umbral_default) ! 1)
          ''PRED_FRAUDE'' = Inr [Num 1, Num 0]"
    by (simp add: ejecutar_modelo_ejemplo get_col_def)
  from a b c d show ?thesis by (intro conjI)
qed

theorem ejecutar_modelo_exito_contrato_witness:
  "modelo_ejemplo ([ejemplo_puntuar] ! 0) = Inr [(4 / 10, 6 / 10), (5 / 10, 5 / 10)]
   \<and> length [(4 / 10 :: real, 6 / 10 :: real), (5 / 10, 5 / 10)] = length (idx ([ejemplo_puntuar] ! 0))
   \<and> ''PROB_FRAUDE'' \<notin> set (col_names ([ejemplo_puntuar] ! 0))
   \<and> ''PRED_FRAUDE'' \<notin> set (col_names ([ejemplo_puntuar] ! 0))
   \<and> (\<exists>s'. ejecutar_modelo modelo_ejemplo [ejemplo_puntuar] 0 umbral_default
                 = (s', [PrediccionesGeneradas umbral_default], Inr 1)
          \<and> idx (s' ! 1) = idx ejemplo_puntuar
          \<and> col_names (s' ! 1) = [''Monto'', ''PROB_FRAUDE'', ''PRED_FRAUDE''])"
proof -
  have h1: "modelo_ejemplo ([ejemplo_puntuar] ! 0) = Inr [(4 / 10, 6 / 10), (5 / 10, 5 / 10)]"
    by (simp add: modelo_ejemplo_def)
  have h2: "length [(4 / 10 :: real, 6 / 10 :: real), (5 / 10, 5 / 10)] = length (idx ([ejemplo_puntuar] ! 0))"
    by (simp add: ejemplo_puntuar_def)
  have h3: "''PROB_FRAUDE'' \<notin> set (col_names ([ejemplo_puntuar] ! 0))"
    by (simp add: ejemplo_puntuar_def col_names_def)
  have h4: "''PRED_FRAUDE'' \<notin> set (col_names ([ejemplo_puntuar] ! 0))"
    by (simp add: ejemplo_puntuar_def col_names_def)
  from ejecutar_modelo_exito_contrato [of modelo_ejemplo "[ejemplo_puntuar]" 0
      "[(4 / 10, 6 / 10), (5 / 10, 5 / 10)]" umbral_default, OF h1 h2 h3 h4]
  obtain s' where
    r1: "ejecutar_modelo modelo_ejemplo [ejemplo_puntuar] 0 umbral_default
           = (s', [PrediccionesGeneradas umbral_default], Inr (length [ejemplo_puntuar]))"
    and r2: "idx (s' ! length [ejemplo_puntuar]) = idx ([ejemplo_puntuar] ! 0)"
    and r3: "cols (s' ! length [ejemplo_puntuar]) =
                 cols ([ejemplo_puntuar] ! 0) @
                   [(''PROB_FRAUDE'', map (\<lambda>p. Num (snd p))
                        [(4 / 10 :: real, 6 / 10 :: real), (5 / 10, 5 / 10)]),
                    (''PRED_FRAUDE'', map (\<lambda>p. if snd p \<ge> umbral_default then Num 1 else Num 0)
                        [(4 / 10 :: real, 6 / 10 :: real), (5 / 10, 5 / 10)])]"
    by (elim exE conjE)
  from r3 have n: "col_names (s' ! 1) = [''Monto'', ''PROB_FRAUDE'', ''PRED_FRAUDE'']"
    by (simp add: col_names_def ejemplo_puntuar_def)
  have "\<exists>s'. ejecutar_modelo modelo_ejemplo [ejemplo_puntuar] 0 umbral_default
                 = (s', [PrediccionesGeneradas umbral_default], Inr 1)
          \<and> idx (s' ! 1) = idx ejemplo_puntuar
          \<and> col_names (s' ! 1) = [''Monto'', ''PROB_FRAUDE'', ''PRED_FRAUDE'']"
    using r1 r2 n by (intro exI [of _ s']) simp
  with h1 h2 h3 h4 show ?thesis by (intro conjI)
qed

text \<open>
  On a frame that already has a column \<open>PROB_FRAUDE\<close> the scorer succeeds, and its result
  is not the input with two columns appended: the existing column is overwritten where it
  stands, and one column is appended.
\<close>

theorem ejecutar_modelo_columna_existente:
  "snd (snd (ejecutar_modelo modelo_ejemplo [ejemplo_ya_puntuado] 0 umbral_default)) = Inr 1
   \<and> cols (fst (ejecutar_modelo modelo_ejemplo [ejemplo_ya_puntuado] 0 umbral_default) ! 1)
        \<noteq> cols ejemplo_ya_puntuado @
              [(''PROB_FRAUDE'', [Num (6 / 10), Num (5 / 10)]), (''PRED_FRAUDE'', [Num 1, Num 0])]
   \<and> col_names (fst (ejecutar_modelo modelo_ejemplo [ejemplo_ya_puntuado] 0 umbral_default) ! 1)
        = [''PROB_FRAUDE'', ''Monto'', ''PRED_FRAUDE'']"
  by (simp only: ejecutar_modelo_ya_puntuado) (simp add: col_names_def ejemplo_ya_puntuado_def)

section \<open>Rows and copies\<close>

lemma conserva_refl: "conserva_filas t t"
  by (simp add: conserva_filas_def)

lemma conserva_trans: "conserva_filas a b \<Longrightarrow> conserva_filas b c \<Longrightarrow> conserva_filas a c"
  by (simp add: conserva_filas_def)

lemma conserva_set_col:
  assumes "aligned t \<Longrightarrow> length v = length (idx t)"
  shows "conserva_filas t (set_col c v t)"
  using assms by (simp add: conserva_filas_def aligned_set_col)

lemma conserva_set_col_of:
  assumes "get_col t k = Inr c" "length v = length c"
  shows "conserva_filas t (set_col n v t)"
  using assms by (intro conserva_set_col) (simp add: get_col_length)

lemma conserva_reemplazar: "reemplazar_negativos_col t c = Inr t' \<Longrightarrow> conserva_filas t t'"
  by (auto simp: reemplazar_negativos_col_def cmp_col_def np_where_broadcast_left
      split: sum.splits if_splits intro!: conserva_set_col_of)

lemma conserva_limpiar: "limpiar_col fr pf t c = Inr t' \<Longrightarrow> conserva_filas t t'"
  by (auto simp: limpiar_col_def Let_def get_col_set_col set_col_twice
      split: sum.splits intro!: conserva_set_col_of)

lemma conserva_imputar: "imputar_nulos_col t c = Inr t' \<Longrightarrow> conserva_filas t t'"
  by (auto simp: imputar_nulos_col_def fillna_def split: sum.splits intro!: conserva_set_col_of)

lemma conserva_dummy: "dummy_col columna t cat = Inr t' \<Longrightarrow> conserva_filas t t'"
  by (auto simp: dummy_col_def Let_def np_where_broadcast_both
      split: sum.splits intro!: conserva_set_col_of)

lemma conserva_binarizar: "binarizar_col corte t c = Inr t' \<Longrightarrow> conserva_filas t t'"
  by (auto simp: binarizar_col_def cmp_col_def np_where_broadcast_both conserva_refl
      split: sum.splits if_splits intro!: conserva_set_col_of)

lemma conserva_raiz: "raiz_col t c = Inr t' \<Longrightarrow> conserva_filas t t'"
  by (auto simp: raiz_col_def cmp_col_def np_sqrt_def np_where_broadcast_right
      split: sum.splits if_splits intro!: conserva_set_col_of)

lemma conserva_select: "select_cols t lista = Inr t' \<Longrightarrow> conserva_filas t t'"
  by (auto simp: select_cols_def Let_def conserva_filas_def aligned_def list_all_iff
      split: if_splits)

lemma conserva_drop: "drop_col columna t = Inr t' \<Longrightarrow> conserva_filas t t'"
  by (auto simp: drop_col_def conserva_filas_def aligned_def list_all_iff split: if_splits)

lemma in_place_rows:
  assumes "df < length s"
    and step: "\<And>t c t'. body t c = Inr t' \<Longrightarrow> conserva_filas t t'"
    and run: "for_cols body s df cs = (s', Inr r)"
  shows "r = df \<and> conserva_filas (s ! df) (s' ! r)"
proof -
  have "length s' = length s \<and> (\<forall>r. r \<noteq> df \<longrightarrow> s' ! r = s ! r)
      \<and> conserva_filas (s ! df) (s' ! df) \<and> (\<forall>r'. (Inr r :: py_exception + ref) = Inr r' \<longrightarrow> r' = df)"
  proof (rule for_cols_rel [where R = conserva_filas and body = body and cs = cs])
    show "df < length s" by (rule assms(1))
    show "conserva_filas t t" for t by (rule conserva_refl)
    show "conserva_filas a c" if "conserva_filas a b" "conserva_filas b c" for a b c
      using that by (rule conserva_trans)
    show "conserva_filas t t'" if "c \<in> set cs" "body t c = Inr t'" for t c t'
      using that(2) by (rule step)
    show "for_cols body s df cs = (s', Inr r)" by (rule run)
  qed
  then show ?thesis by simp
qed

lemma take_copy:
  assumes "length s' = Suc (length s)" "\<forall>r. r \<noteq> length s \<longrightarrow> s' ! r = (s @ [t]) ! r"
  shows "take (length s) s' = s" and "s' = s @ [s' ! length s]"
proof -
  show tk: "take (length s) s' = s"
  proof (rule nth_equalityI)
    show "length (take (length s) s') = length s" using assms(1) by simp
    fix i assume "i < length (take (length s) s')"
    then have i: "i < length s" by simp
    have "take (length s) s' ! i = s' ! i" using i by (rule nth_take)
    also have "\<dots> = (s @ [t]) ! i" using assms(2) i by simp
    also have "\<dots> = s ! i" using i by (simp add: nth_append)
    finally show "take (length s) s' ! i = s ! i" .
  qed
  have "s' = take (length s) s' @ drop (length s) s'" by simp
  moreover have "drop (length s) s' = [s' ! length s]"
    using assms(1) by (metis Cons_nth_drop_Suc drop_all lessI order_refl)
  ultimately show "s' = s @ [s' ! length s]" using tk by simp
qed

lemma copy_loop:
  assumes step: "\<And>t c t'. body t c = Inr t' \<Longrightarrow> conserva_filas t t'"
    and run: "for_cols body (s @ [t]) (length s) cs = (s', res)"
  shows "length s' = Suc (length s)" "take (length s) s' = s" "s' = s @ [s' ! length s]"
    "conserva_filas t (s' ! length s)" "\<forall>r. res = Inr r \<longrightarrow> r = length s"
proof -
  have lt: "length s < length (s @ [t])" by simp
  have all: "length s' = length (s @ [t]) \<and> (\<forall>r. r \<noteq> length s \<longrightarrow> s' ! r = (s @ [t]) ! r)
      \<and> conserva_filas ((s @ [t]) ! length s) (s' ! length s) \<and> (\<forall>r. res = Inr r \<longrightarrow> r = length s)"
  proof (rule for_cols_rel [where R = conserva_filas and body = body and cs = cs])
    show "length s < length (s @ [t])" by (rule lt)
    show "conserva_filas t t" for t by (rule conserva_refl)
    show "conserva_filas a c" if "conserva_filas a b" "conserva_filas b c" for a b c
      using that by (rule conserva_trans)
    show "conserva_filas t t'" if "c \<in> set cs" "body t c = Inr t'" for t c t'
      using that(2) by (rule step)
    show "for_cols body (s @ [t]) (length s) cs = (s', res)" by (rule run)
  qed
  from all have len: "length s' = length (s @ [t])" by (elim conjE)
  from all have oth: "\<forall>r. r \<noteq> length s \<longrightarrow> s' ! r = (s @ [t]) ! r" by (elim conjE)
  from all have rel: "conserva_filas ((s @ [t]) ! length s) (s' ! length s)" by (elim conjE)
  from all have res: "\<forall>r. res = Inr r \<longrightarrow> r = length s" by (elim conjE)
  show l: "length s' = Suc (length s)" using len by simp
  show "take (length s) s' = s" by (rule take_copy(1) [OF l oth])
  show "s' = s @ [s' ! length s]" by (rule take_copy(2) [OF l oth])
  show "conserva_filas t (s' ! length s)" using rel by simp
  show "\<forall>r. res = Inr r \<longrightarrow> r = length s" by (rule res)
qed

lemma copy_loop_all:
  assumes step: "\<And>t c t'. body t c = Inr t' \<Longrightarrow> conserva_filas t t'"
    and run: "for_cols body (s @ [t]) (length s) cs = (s', res)"
  shows "length s' = Suc (length s) \<and> take (length s) s' = s \<and> s' = s @ [s' ! length s]
     \<and> conserva_filas t (s' ! length s) \<and> (\<forall>r. res = Inr r \<longrightarrow> r = length s)"
  using copy_loop [of body s t cs s' res, OF step run] by (intro conjI)

lemma raiz_frame:
  assumes "transformacion_raiz_cuadrada s df0 vs = (s', res)"
  shows "length s' = Suc (length s) \<and> take (length s) s' = s
     \<and> conserva_filas (s ! df0) (s' ! length s) \<and> (\<forall>r. res = Inr r \<longrightarrow> r = length s)"
proof -
  from assms have run: "for_cols raiz_col (s @ [s ! df0]) (length s) vs = (s', res)"
    by (simp add: transformacion_raiz_cuadrada_def copy_frame_def)
  have "length s' = Suc (length s) \<and> take (length s) s' = s \<and> s' = s @ [s' ! length s]
     \<and> conserva_filas (s ! df0) (s' ! length s) \<and> (\<forall>r. res = Inr r \<longrightarrow> r = length s)"
    by (rule copy_loop_all [where body = raiz_col, OF _ run]) (rule conserva_raiz)
  then show ?thesis by simp
qed

lemma binarizar_frame:
  assumes "binarizar_variables s df0 v0 v1 = (s', res)"
  shows "length s' = Suc (length s) \<and> take (length s) s' = s
     \<and> conserva_filas (s ! df0) (s' ! length s) \<and> (\<forall>r. res = Inr r \<longrightarrow> r = length s)"
proof -
  obtain s2 res2 where run1: "for_cols (binarizar_col 0) (s @ [s ! df0]) (length s) v0 = (s2, res2)"
    by (cases "for_cols (binarizar_col 0) (s @ [s ! df0]) (length s) v0")
  have "length s2 = Suc (length s) \<and> take (length s) s2 = s \<and> s2 = s @ [s2 ! length s]
     \<and> conserva_filas (s ! df0) (s2 ! length s) \<and> (\<forall>r. res2 = Inr r \<longrightarrow> r = length s)"
    by (rule copy_loop_all [where body = "binarizar_col 0", OF _ run1]) (rule conserva_binarizar)
  then have c1: "length s2 = Suc (length s)" "take (length s) s2 = s" "s2 = s @ [s2 ! length s]"
     "conserva_filas (s ! df0) (s2 ! length s)"
    by simp_all
  show ?thesis
  proof (cases res2)
    case (Inl e)
    with assms run1 have "s' = s2" "res = Inl e"
      by (simp_all add: binarizar_variables_def copy_frame_def)
    with c1(1) c1(2) c1(4) show ?thesis by simp
  next
    case (Inr r2)
    with assms run1 have "for_cols (binarizar_col 1) s2 (length s) v1 = (s', res)"
      by (simp add: binarizar_variables_def copy_frame_def)
    then have run2: "for_cols (binarizar_col 1) (s @ [s2 ! length s]) (length s) v1 = (s', res)"
      using c1(3) by simp
    have "length s' = Suc (length s) \<and> take (length s) s' = s \<and> s' = s @ [s' ! length s]
       \<and> conserva_filas (s2 ! length s) (s' ! length s) \<and> (\<forall>r. res = Inr r \<longrightarrow> r = length s)"
      by (rule copy_loop_all [where body = "binarizar_col 1", OF _ run2]) (rule conserva_binarizar)
    then have c2: "length s' = Suc (length s)" "take (length s) s' = s" "s' = s @ [s' ! length s]"
       "conserva_filas (s2 ! length s) (s' ! length s)" "\<forall>r. res = Inr r \<longrightarrow> r = length s"
      by simp_all
    have "conserva_filas (s ! df0) (s' ! length s)"
      using c1(4) c2(4) by (rule conserva_trans)
    with c2(1) c2(2) c2(5) show ?thesis by (intro conjI)
  qed
qed

lemma dummificar_frame:
  assumes "dummificar_var_categorica s df0 columna cats referencia = (s', res)"
  shows "take (length s) s' = s
     \<and> (\<forall>r. res = Inr r \<longrightarrow> length s \<le> r \<and> r < length s' \<and> conserva_filas (s ! df0) (s' ! r))"
proof (cases "get_col (s ! df0) columna")
  case (Inl e)
  with assms have "s' = s @ [s ! df0]" "res = Inl e"
    by (simp_all add: dummificar_var_categorica_def copy_frame_def)
  then show ?thesis by simp
next
  case (Inr c)
  let ?g = "agrupar cats c"
  let ?t2 = "set_col columna (map Txt ?g) (s ! df0)"
  let ?categorias = "filter (\<lambda>cat. cat \<noteq> referencia) (unique ?g)"
  have k2: "conserva_filas (s ! df0) ?t2"
    by (rule conserva_set_col_of [OF Inr]) simp
  obtain s3 res3 where run: "for_cols (dummy_col columna) (s @ [?t2]) (length s) ?categorias = (s3, res3)"
    by (cases "for_cols (dummy_col columna) (s @ [?t2]) (length s) ?categorias")
  have "length s3 = Suc (length s) \<and> take (length s) s3 = s \<and> s3 = s @ [s3 ! length s]
     \<and> conserva_filas ?t2 (s3 ! length s) \<and> (\<forall>r. res3 = Inr r \<longrightarrow> r = length s)"
    by (rule copy_loop_all [where body = "dummy_col columna", OF _ run]) (rule conserva_dummy)
  then have cl: "length s3 = Suc (length s)" "take (length s) s3 = s" "s3 = s @ [s3 ! length s]"
     "conserva_filas ?t2 (s3 ! length s)"
    by simp_all
  have k3: "conserva_filas (s ! df0) (s3 ! length s)" using k2 cl(4) by (rule conserva_trans)
  show ?thesis
  proof (cases res3)
    case (Inl e)
    with assms Inr run have "s' = s3" "res = Inl e"
      by (simp_all add: dummificar_var_categorica_def copy_frame_def Let_def)
    with cl(2) show ?thesis by simp
  next
    case r3: (Inr r3)
    show ?thesis
    proof (cases "drop_col columna (s3 ! length s)")
      case (Inl e)
      with assms Inr run r3 have "s' = s3" "res = Inl e"
        by (simp_all add: dummificar_var_categorica_def copy_frame_def Let_def)
      with cl(2) show ?thesis by simp
    next
      case dr: (Inr t')
      with assms Inr run r3 have s': "s' = s3 @ [t']" and res: "res = Inr (length s3)"
        by (simp_all add: dummificar_var_categorica_def copy_frame_def Let_def)
      have "conserva_filas (s3 ! length s) t'" using dr by (rule conserva_drop)
      with k3 have k4: "conserva_filas (s ! df0) t'" by (rule conserva_trans)
      have tk: "take (length s) s' = s" using cl(1) cl(2) by (simp add: s')
      have at: "s' ! length s3 = t'" by (simp add: s')
      have a1: "length s \<le> length s3" using cl(1) by simp
      have a2: "length s3 < length s'" by (simp add: s')
      have a3: "conserva_filas (s ! df0) (s' ! length s3)" using k4 by (simp only: at)
      have "\<forall>r. res = Inr r \<longrightarrow> length s \<le> r \<and> r < length s' \<and> conserva_filas (s ! df0) (s' ! r)"
      proof (intro allI impI)
        fix r assume "res = Inr r"
        then have r: "r = length s3" by (simp add: res)
        show "length s \<le> r \<and> r < length s' \<and> conserva_filas (s ! df0) (s' ! r)"
          unfolding r by (intro conjI a1 a2 a3)
      qed
      with tk show ?thesis by (intro conjI)
    qed
  qed
qed

lemma ejecutar_frame:
  assumes "ejecutar_modelo predict_proba s df0 umbral = (s', out, res)"
  shows "length s' = Suc (length s) \<and> take (length s) s' = s \<and> res = Inr (length s)"
  using assms
  by (auto simp: ejecutar_modelo_def copy_frame_def Let_def split: sum.splits)

lemma ejecutar_rows:
  assumes run: "ejecutar_modelo predict_proba s df0 umbral = (s', out, res)"
    and contract: "\<forall>proba. predict_proba (s ! df0) = Inr proba \<longrightarrow> length proba = length (idx (s ! df0))"
  shows "conserva_filas (s ! df0) (s' ! length s)"
proof (cases "predict_proba (s ! df0)")
  case (Inl e)
  with run have "s' = s @ [s ! df0]" by (simp add: ejecutar_modelo_def copy_frame_def)
  then show ?thesis by (simp add: conserva_refl)
next
  case (Inr proba)
  let ?t = "s ! df0"
  let ?pc = "map (\<lambda>p. Num (snd p)) proba"
  let ?t2 = "set_col ''PROB_FRAUDE'' ?pc ?t"
  from contract Inr have len: "length proba = length (idx ?t)" by blast
  then have as: "assign_array ''PROB_FRAUDE'' ?pc ?t = Inr ?t2" by (simp add: assign_array_def)
  have g: "get_col ?t2 ''PROB_FRAUDE'' = Inr ?pc" by (simp add: get_col_set_col)
  have cm: "cmp_col (\<lambda>x. x \<ge> umbral) ?pc = Inr (map (cell_test (\<lambda>x. x \<ge> umbral)) ?pc)"
    by (simp add: cmp_col_def list_ex_iff)
  let ?pr = "np_where (map (cell_test (\<lambda>x. x \<ge> umbral)) ?pc)
              (broadcast (map (cell_test (\<lambda>x. x \<ge> umbral)) ?pc) (Num 1))
              (broadcast (map (cell_test (\<lambda>x. x \<ge> umbral)) ?pc) (Num 0))"
  have s': "s' = s @ [set_col ''PRED_FRAUDE'' ?pr ?t2]"
    using run Inr as g cm by (simp add: ejecutar_modelo_def copy_frame_def Let_def)
  have k1: "conserva_filas ?t ?t2" by (rule conserva_set_col) (simp add: len)
  have "length ?pr = length (idx ?t2)" by (simp add: np_where_broadcast_both len)
  then have k2: "conserva_filas ?t2 (set_col ''PRED_FRAUDE'' ?pr ?t2)" by (intro conserva_set_col)
  from k1 k2 have "conserva_filas ?t (set_col ''PRED_FRAUDE'' ?pr ?t2)" by (rule conserva_trans)
  then show ?thesis by (simp add: s')
qed

lemma seleccion_rows:
  assumes "seleccion_variables s df lista = (s', Inr r)"
  shows "r = length s \<and> s' = s @ [s' ! r] \<and> conserva_filas (s ! df) (s' ! r)"
proof (cases "select_cols (s ! df) lista")
  case (Inl e)
  with assms show ?thesis by (simp add: seleccion_variables_def split: py_exception.splits)
next
  case (Inr t')
  with assms have "s' = s @ [t']" "r = length s" by (simp_all add: seleccion_variables_def)
  with conserva_select [OF Inr] show ?thesis by simp
qed

lemma filas_de_conserva:
  "aligned t \<Longrightarrow> conserva_filas t t' \<Longrightarrow> idx t' = idx t \<and> aligned t'"
  by (simp add: conserva_filas_def)

text \<open>
  C9. Take a frame in which every column has one cell per row, and a model that returns
  one row of probabilities per row it is given. Whenever a stage returns a frame (the
  selector, the normalizer, the negative corrector, the imputer, the collapser, the
  binarizer, the root transform, the scorer), that frame has the row labels of the input,
  in the same order, and every one of its columns has one cell per row: no row is
  reordered, added or dropped.
\<close>

theorem filas_conservadas:
  assumes "df < length s" and "aligned (s ! df)"
    and "\<forall>proba. predict_proba (s ! df) = Inr proba \<longrightarrow> length proba = length (idx (s ! df))"
  shows "(\<forall>s' r. seleccion_variables s df lista_vars = (s', Inr r)
            \<longrightarrow> idx (s' ! r) = idx (s ! df) \<and> aligned (s' ! r))
     \<and> (\<forall>s' r. limpiar_y_convertir float_repr parse_float s df columnas = (s', Inr r)
            \<longrightarrow> idx (s' ! r) = idx (s ! df) \<and> aligned (s' ! r))
     \<and> (\<forall>s' r. reemplazar_negativos_por_mediana s df columnas = (s', Inr r)
            \<longrightarrow> idx (s' ! r) = idx (s ! df) \<and> aligned (s' ! r))
     \<and> (\<forall>s' r. imputar_nulos_por_mediana s df columnas = (s', Inr r)
            \<longrightarrow> idx (s' ! r) = idx (s ! df) \<and> aligned (s' ! r))
     \<and> (\<forall>s' r. dummificar_var_categorica s df columna categorias_principales referencia = (s', Inr r)
            \<longrightarrow> idx (s' ! r) = idx (s ! df) \<and> aligned (s' ! r))
     \<and> (\<forall>s' r. binarizar_variables s df corte_cero corte_uno = (s', Inr r)
            \<longrightarrow> idx (s' ! r) = idx (s ! df) \<and> aligned (s' ! r))
     \<and> (\<forall>s' r. transformacion_raiz_cuadrada s df variables_raiz = (s', Inr r)
            \<longrightarrow> idx (s' ! r) = idx (s ! df) \<and> aligned (s' ! r))
     \<and> (\<forall>s' out r. ejecutar_modelo predict_proba s df umbral = (s', out, Inr r)
            \<longrightarrow> idx (s' ! r) = idx (s ! df) \<and> aligned (s' ! r))"
proof -
  note al = assms(2)
  have c1: "\<forall>s' r. seleccion_variables s df lista_vars = (s', Inr r)
            \<longrightarrow> idx (s' ! r) = idx (s ! df) \<and> aligned (s' ! r)"
    using seleccion_rows [of s df lista_vars] filas_de_conserva [OF al] by blast
  have c2: "\<forall>s' r. limpiar_y_convertir float_repr parse_float s df columnas = (s', Inr r)
            \<longrightarrow> idx (s' ! r) = idx (s ! df) \<and> aligned (s' ! r)"
  proof (intro allI impI)
    fix s' r assume "limpiar_y_convertir float_repr parse_float s df columnas = (s', Inr r)"
    then have run: "for_cols (limpiar_col float_repr parse_float) s df columnas = (s', Inr r)"
      by (simp add: limpiar_y_convertir_def)
    have "r = df \<and> conserva_filas (s ! df) (s' ! r)"
      by (rule in_place_rows [of df s "limpiar_col float_repr parse_float" columnas s' r, OF assms(1) _ run]) (rule conserva_limpiar)
    then have "conserva_filas (s ! df) (s' ! r)" by (rule conjunct2)
    with al show "idx (s' ! r) = idx (s ! df) \<and> aligned (s' ! r)" by (rule filas_de_conserva)
  qed
  have c3: "\<forall>s' r. reemplazar_negativos_por_mediana s df columnas = (s', Inr r)
            \<longrightarrow> idx (s' ! r) = idx (s ! df) \<and> aligned (s' ! r)"
  proof (intro allI impI)
    fix s' r assume "reemplazar_negativos_por_mediana s df columnas = (s', Inr r)"
    then have run: "for_cols reemplazar_negativos_col s df columnas = (s', Inr r)"
      by (simp add: reemplazar_negativos_por_mediana_def)
    have "r = df \<and> conserva_filas (s ! df) (s' ! r)"
      by (rule in_place_rows [of df s reemplazar_negativos_col columnas s' r, OF assms(1) _ run]) (rule conserva_reemplazar)
    then have "conserva_filas (s ! df) (s' ! r)" by (rule conjunct2)
    with al show "idx (s' ! r) = idx (s ! df) \<and> aligned (s' ! r)" by (rule filas_de_conserva)
  qed
  have c4: "\<forall>s' r. imputar_nulos_por_mediana s df columnas = (s', Inr r)
            \<longrightarrow> idx (s' ! r) = idx (s ! df) \<and> aligned (s' ! r)"
  proof (intro allI impI)
    fix s' r assume "imputar_nulos_por_mediana s df columnas = (s', Inr r)"
    then have run: "for_cols imputar_nulos_col s df columnas = (s', Inr r)"
      by (simp add: imputar_nulos_por_mediana_def)
    have "r = df \<and> conserva_filas (s ! df) (s' ! r)"
      by (rule in_place_rows [of df s imputar_nulos_col columnas s' r, OF assms(1) _ run]) (rule conserva_imputar)
    then have "conserva_filas (s ! df) (s' ! r)" by (rule conjunct2)
    with al show "idx (s' ! r) = idx (s ! df) \<and> aligned (s' ! r)" by (rule filas_de_conserva)
  qed
  have c5: "\<forall>s' r. dummificar_var_categorica s df columna categorias_principales referencia = (s', Inr r)
            \<longrightarrow> idx (s' ! r) = idx (s ! df) \<and> aligned (s' ! r)"
  proof (intro allI impI)
    fix s' r
    assume "dummificar_var_categorica s df columna categorias_principales referencia = (s', Inr r)"
    from dummificar_frame [OF this] have "conserva_filas (s ! df) (s' ! r)" by blast
    with al show "idx (s' ! r) = idx (s ! df) \<and> aligned (s' ! r)" by (rule filas_de_conserva)
  qed
  have c6: "\<forall>s' r. binarizar_variables s df corte_cero corte_uno = (s', Inr r)
            \<longrightarrow> idx (s' ! r) = idx (s ! df) \<and> aligned (s' ! r)"
  proof (intro allI impI)
    fix s' r
    assume "binarizar_variables s df corte_cero corte_uno = (s', Inr r)"
    from binarizar_frame [OF this] have "conserva_filas (s ! df) (s' ! r)" by simp
    with al show "idx (s' ! r) = idx (s ! df) \<and> aligned (s' ! r)" by (rule filas_de_conserva)
  qed
  have c7: "\<forall>s' r. transformacion_raiz_cuadrada s df variables_raiz = (s', Inr r)
            \<longrightarrow> idx (s' ! r) = idx (s ! df) \<and> aligned (s' ! r)"
  proof (intro allI impI)
    fix s' r
    assume "transformacion_raiz_cuadrada s df variables_raiz = (s', Inr r)"
    from raiz_frame [OF this] have "conserva_filas (s ! df) (s' ! r)" by simp
    with al show "idx (s' ! r) = idx (s ! df) \<and> aligned (s' ! r)" by (rule filas_de_conserva)
  qed
  have c8: "\<forall>s' out r. ejecutar_modelo predict_proba s df umbral = (s', out, Inr r)
            \<longrightarrow> idx (s' ! r) = idx (s ! df) \<and> aligned (s' ! r)"
  proof (intro allI impI)
    fix s' out r
    assume run: "ejecutar_modelo predict_proba s df umbral = (s', out, Inr r)"
    from ejecutar_frame [OF run] have r: "r = length s" by simp
    from ejecutar_rows [OF run assms(3)] have "conserva_filas (s ! df) (s' ! r)" by (simp add: r)
    with al show "idx (s' ! r) = idx (s ! df) \<and> aligned (s' ! r)" by (rule filas_de_conserva)
  qed
  from c1 c2 c3 c4 c5 c6 c7 c8 show ?thesis by (intro conjI)
qed

lemma take_nth_same:
  "take (length s) s' = s \<Longrightarrow> df0 < length s \<Longrightarrow> s' ! df0 = s ! df0"
  by (metis nth_take)

text \<open>
  C10. The collapser, the binarizer, the root transform and the scorer leave every frame
  that was in the store before the call as it was, the caller's frame among them,
  whether they return or raise; a frame they return is at a reference that did not exist
  before the call.
\<close>

theorem copia_implicita:
  assumes "df < length s"
  shows "(\<forall>s' res. dummificar_var_categorica s df columna categorias_principales referencia = (s', res)
            \<longrightarrow> take (length s) s' = s \<and> s' ! df = s ! df
                \<and> (\<forall>r. res = Inr r \<longrightarrow> length s \<le> r \<and> r < length s'))
     \<and> (\<forall>s' res. binarizar_variables s df corte_cero corte_uno = (s', res)
            \<longrightarrow> take (length s) s' = s \<and> s' ! df = s ! df
                \<and> (\<forall>r. res = Inr r \<longrightarrow> length s \<le> r \<and> r < length s'))
     \<and> (\<forall>s' res. transformacion_raiz_cuadrada s df variables_raiz = (s', res)
            \<longrightarrow> take (length s) s' = s \<and> s' ! df = s ! df
                \<and> (\<forall>r. res = Inr r \<longrightarrow> length s \<le> r \<and> r < length s'))
     \<and> (\<forall>s' out res. ejecutar_modelo predict_proba s df umbral = (s', out, res)
            \<longrightarrow> take (length s) s' = s \<and> s' ! df = s ! df
                \<and> (\<forall>r. res = Inr r \<longrightarrow> length s \<le> r \<and> r < length s'))"
proof -
  have c1: "\<forall>s' res. dummificar_var_categorica s df columna categorias_principales referencia = (s', res)
            \<longrightarrow> take (length s) s' = s \<and> s' ! df = s ! df
                \<and> (\<forall>r. res = Inr r \<longrightarrow> length s \<le> r \<and> r < length s')"
  proof (intro allI impI)
    fix s' res
    assume "dummificar_var_categorica s df columna categorias_principales referencia = (s', res)"
    note f = dummificar_frame [OF this]
    from f have tk: "take (length s) s' = s" by simp
    from f have fr: "\<forall>r. res = Inr r \<longrightarrow> length s \<le> r \<and> r < length s'" by simp
    from tk take_nth_same [OF tk assms] fr
    show "take (length s) s' = s \<and> s' ! df = s ! df
                \<and> (\<forall>r. res = Inr r \<longrightarrow> length s \<le> r \<and> r < length s')"
      by (intro conjI)
  qed
  have c2: "\<forall>s' res. binarizar_variables s df corte_cero corte_uno = (s', res)
            \<longrightarrow> take (length s) s' = s \<and> s' ! df = s ! df
                \<and> (\<forall>r. res = Inr r \<longrightarrow> length s \<le> r \<and> r < length s')"
  proof (intro allI impI)
    fix s' res
    assume "binarizar_variables s df corte_cero corte_uno = (s', res)"
    note f = binarizar_frame [OF this]
    from f have tk: "take (length s) s' = s" by simp
    from f have fr: "\<forall>r. res = Inr r \<longrightarrow> length s \<le> r \<and> r < length s'" by simp
    from tk take_nth_same [OF tk assms] fr
    show "take (length s) s' = s \<and> s' ! df = s ! df
                \<and> (\<forall>r. res = Inr r \<longrightarrow> length s \<le> r \<and> r < length s')"
      by (intro conjI)
  qed
  have c3: "\<forall>s' res. transformacion_raiz_cuadrada s df variables_raiz = (s', res)
            \<longrightarrow> take (length s) s' = s \<and> s' ! df = s ! df
                \<and> (\<forall>r. res = Inr r \<longrightarrow> length s \<le> r \<and> r < length s')"
  proof (intro allI impI)
    fix s' res
    assume "transformacion_raiz_cuadrada s df variables_raiz = (s', res)"
    note f = raiz_frame [OF this]
    from f have tk: "take (length s) s' = s" by simp
    from f have fr: "\<forall>r. res = Inr r \<longrightarrow> length s \<le> r \<and> r < length s'" by simp
    from tk take_nth_same [OF tk assms] fr
    show "take (length s) s' = s \<and> s' ! df = s ! df
                \<and> (\<forall>r. res = Inr r \<longrightarrow> length s \<le> r \<and> r < length s')"
      by (intro conjI)
  qed
  have c4: "\<forall>s' out res. ejecutar_modelo predict_proba s df umbral = (s', out, res)
            \<longrightarrow> take (length s) s' = s \<and> s' ! df = s ! df
                \<and> (\<forall>r. res = Inr r \<longrightarrow> length s \<le> r \<and> r < length s')"
  proof (intro allI impI)
    fix s' out res
    assume "ejecutar_modelo predict_proba s df umbral = (s', out, res)"
    note f = ejecutar_frame [OF this]
    from f have tk: "take (length s) s' = s" by simp
    from f have fr: "\<forall>r. res = Inr r \<longrightarrow> length s \<le> r \<and> r < length s'" by simp
    from tk take_nth_same [OF tk assms] fr
    show "take (length s) s' = s \<and> s' ! df = s ! df
                \<and> (\<forall>r. res = Inr r \<longrightarrow> length s \<le> r \<and> r < length s')"
      by (intro conjI)
  qed
  from c1 c2 c3 c4 show ?thesis by (intro conjI)
qed

lemma ex_of_snd: "snd p = Inr r \<Longrightarrow> \<exists>s'. p = (s', Inr r)"
  by (cases p) simp

lemma ex_of_snd_snd: "snd (snd p) = Inr r \<Longrightarrow> \<exists>s' out. p = (s', out, Inr r)"
  by (cases p) auto

lemma aligned_ejemplo_numerico: "aligned ejemplo_numerico"
  by (simp add: aligned_def ejemplo_numerico_def)

lemma modelo_constante_contrato:
  "\<forall>proba. modelo_constante t = Inr proba \<longrightarrow> length proba = length (idx t)"
  by (auto simp: modelo_constante_def)

lemma seleccion_numerico_devuelve:
  "snd (seleccion_variables [ejemplo_numerico] 0 [''b'', ''a'']) = Inr 1"
  by (simp add: seleccion_variables_def select_cols_def Let_def col_names_def ejemplo_numerico_def)

lemma limpiar_numerico_devuelve:
  "snd (limpiar_y_convertir repr_one_decimal read_decimal [ejemplo_numerico] 0 [''a'']) = Inr 0"
proof -
  have "distinct (col_names ([ejemplo_numerico] ! 0))"
    by (simp add: ejemplo_numerico_def col_names_def)
  moreover have "set [''a''] \<subseteq> set (col_names ([ejemplo_numerico] ! 0))"
    by (simp add: ejemplo_numerico_def col_names_def)
  ultimately show ?thesis
    using limpiar_columnwise [of 0 "[ejemplo_numerico]" "[''a'']" repr_one_decimal read_decimal]
    by simp
qed

lemma reemplazar_numerico_devuelve:
  "snd (reemplazar_negativos_por_mediana [ejemplo_numerico] 0 [''a'']) = Inr 0"
  by (simp add: reemplazar_negativos_por_mediana_def reemplazar_negativos_col_def get_col_def
      col_median_def cmp_col_def ejemplo_numerico_def)

lemma imputar_numerico_devuelve:
  "snd (imputar_nulos_por_mediana [ejemplo_numerico] 0 [''a'']) = Inr 0"
  by (simp add: imputar_nulos_por_mediana_def imputar_nulos_col_def get_col_def
      col_median_def ejemplo_numerico_def)

lemma dummificar_numerico_devuelve:
  "snd (dummificar_var_categorica [ejemplo_numerico] 0 ''z'' [''q''] ''OTROS'') = Inr 2"
  by (simp add: dummificar_var_categorica_def copy_frame_def get_col_def set_col_def col_names_def
      agrupar_def unique_def dummy_col_def drop_col_def Let_def ejemplo_numerico_def)

lemma binarizar_numerico_devuelve:
  "snd (binarizar_variables [ejemplo_numerico] 0 [''a''] [''b'']) = Inr 1"
  by (simp add: binarizar_variables_def copy_frame_def binarizar_col_def get_col_def cmp_col_def
      set_col_def col_names_def ejemplo_numerico_def)

lemma raiz_numerico_devuelve:
  "snd (transformacion_raiz_cuadrada [ejemplo_numerico] 0 [''b'']) = Inr 1"
  by (simp add: transformacion_raiz_cuadrada_def copy_frame_def raiz_col_def get_col_def cmp_col_def
      np_sqrt_def ejemplo_numerico_def)

lemma ejecutar_numerico_devuelve:
  "snd (snd (ejecutar_modelo modelo_constante [ejemplo_numerico] 0 umbral_default)) = Inr 1"
  by (simp add: ejecutar_modelo_def copy_frame_def modelo_constante_def assign_array_def
      get_col_set_col cmp_col_def ejemplo_numerico_def Let_def)

theorem filas_conservadas_witness:
  "(0::nat) < length [ejemplo_numerico] \<and> aligned ([ejemplo_numerico] ! 0)
   \<and> (\<exists>s' r. seleccion_variables [ejemplo_numerico] 0 [''b'', ''a''] = (s', Inr r) \<and> idx (s' ! r) = [0, 1, 2] \<and> aligned (s' ! r))
   \<and> (\<exists>s' r. limpiar_y_convertir repr_one_decimal read_decimal [ejemplo_numerico] 0 [''a''] = (s', Inr r) \<and> idx (s' ! r) = [0, 1, 2] \<and> aligned (s' ! r))
   \<and> (\<exists>s' r. reemplazar_negativos_por_mediana [ejemplo_numerico] 0 [''a''] = (s', Inr r) \<and> idx (s' ! r) = [0, 1, 2] \<and> aligned (s' ! r))
   \<and> (\<exists>s' r. imputar_nulos_por_mediana [ejemplo_numerico] 0 [''a''] = (s', Inr r) \<and> idx (s' ! r) = [0, 1, 2] \<and> aligned (s' ! r))
   \<and> (\<exists>s' r. dummificar_var_categorica [ejemplo_numerico] 0 ''z'' [''q''] ''OTROS'' = (s', Inr r) \<and> idx (s' ! r) = [0, 1, 2] \<and> aligned (s' ! r))
   \<and> (\<exists>s' r. binarizar_variables [ejemplo_numerico] 0 [''a''] [''b''] = (s', Inr r) \<and> idx (s' ! r) = [0, 1, 2] \<and> aligned (s' ! r))
   \<and> (\<exists>s' r. transformacion_raiz_cuadrada [ejemplo_numerico] 0 [''b''] = (s', Inr r) \<and> idx (s' ! r) = [0, 1, 2] \<and> aligned (s' ! r))
   \<and> (\<exists>s' out r. ejecutar_modelo modelo_constante [ejemplo_numerico] 0 umbral_default = (s', out, Inr r) \<and> idx (s' ! r) = [0, 1, 2] \<and> aligned (s' ! r))"
proof -
  have h1: "(0::nat) < length [ejemplo_numerico]" by simp
  have h2: "aligned ([ejemplo_numerico] ! 0)" by (simp add: aligned_ejemplo_numerico)
  have h3: "\<forall>proba. modelo_constante ([ejemplo_numerico] ! 0) = Inr proba
              \<longrightarrow> length proba = length (idx ([ejemplo_numerico] ! 0))"
    by (rule modelo_constante_contrato)
  have ix: "idx ([ejemplo_numerico] ! 0) = [0, 1, 2]" by (simp add: ejemplo_numerico_def)
  note th = filas_conservadas [where df = 0 and s = "[ejemplo_numerico]" and predict_proba = modelo_constante
      and lista_vars = "[''b'', ''a'']" and float_repr = repr_one_decimal and parse_float = read_decimal
      and columnas = "[''a'']" and columna = "''z''" and categorias_principales = "[''q'']"
      and referencia = "''OTROS''" and corte_cero = "[''a'']" and corte_uno = "[''b'']"
      and variables_raiz = "[''b'']" and umbral = umbral_default, OF h1 h2 h3]
  have c1: "\<exists>s' r. seleccion_variables [ejemplo_numerico] 0 [''b'', ''a''] = (s', Inr r) \<and> idx (s' ! r) = [0, 1, 2] \<and> aligned (s' ! r)"
  proof -
    from ex_of_snd [OF seleccion_numerico_devuelve] obtain s' where run: "seleccion_variables [ejemplo_numerico] 0 [''b'', ''a''] = (s', Inr 1)"
      by (elim exE)
    from th run have "idx (s' ! 1) = idx ([ejemplo_numerico] ! 0) \<and> aligned (s' ! 1)" by blast
    then have "idx (s' ! 1) = [0, 1, 2] \<and> aligned (s' ! 1)" by (simp only: ix)
    with run show ?thesis by blast
  qed
  have c2: "\<exists>s' r. limpiar_y_convertir repr_one_decimal read_decimal [ejemplo_numerico] 0 [''a''] = (s', Inr r) \<and> idx (s' ! r) = [0, 1, 2] \<and> aligned (s' ! r)"
  proof -
    from ex_of_snd [OF limpiar_numerico_devuelve] obtain s' where run: "limpiar_y_convertir repr_one_decimal read_decimal [ejemplo_numerico] 0 [''a''] = (s', Inr 0)"
      by (elim exE)
    from th run have "idx (s' ! 0) = idx ([ejemplo_numerico] ! 0) \<and> aligned (s' ! 0)" by blast
    then have "idx (s' ! 0) = [0, 1, 2] \<and> aligned (s' ! 0)" by (simp only: ix)
    with run show ?thesis by blast
  qed
  have c3: "\<exists>s' r. reemplazar_negativos_por_mediana [ejemplo_numerico] 0 [''a''] = (s', Inr r) \<and> idx (s' ! r) = [0, 1, 2] \<and> aligned (s' ! r)"
  proof -
    from ex_of_snd [OF reemplazar_numerico_devuelve] obtain s' where run: "reemplazar_negativos_por_mediana [ejemplo_numerico] 0 [''a''] = (s', Inr 0)"
      by (elim exE)
    from th run have "idx (s' ! 0) = idx ([ejemplo_numerico] ! 0) \<and> aligned (s' ! 0)" by blast
    then have "idx (s' ! 0) = [0, 1, 2] \<and> aligned (s' ! 0)" by (simp only: ix)
    with run show ?thesis by blast
  qed
  have c4: "\<exists>s' r. imputar_nulos_por_mediana [ejemplo_numerico] 0 [''a''] = (s', Inr r) \<and> idx (s' ! r) = [0, 1, 2] \<and> aligned (s' ! r)"
  proof -
    from ex_of_snd [OF imputar_numerico_devuelve] obtain s' where run: "imputar_nulos_por_mediana [ejemplo_numerico] 0 [''a''] = (s', Inr 0)"
      by (elim exE)
    from th run have "idx (s' ! 0) = idx ([ejemplo_numerico] ! 0) \<and> aligned (s' ! 0)" by blast
    then have "idx (s' ! 0) = [0, 1, 2] \<and> aligned (s' ! 0)" by (simp only: ix)
    with run show ?thesis by blast
  qed
  have c5: "\<exists>s' r. dummificar_var_categorica [ejemplo_numerico] 0 ''z'' [''q''] ''OTROS'' = (s', Inr r) \<and> idx (s' ! r) = [0, 1, 2] \<and> aligned (s' ! r)"
  proof -
    from ex_of_snd [OF dummificar_numerico_devuelve] obtain s' where run: "dummificar_var_categorica [ejemplo_numerico] 0 ''z'' [''q''] ''OTROS'' = (s', Inr 2)"
      by (elim exE)
    from th run have "idx (s' ! 2) = idx ([ejemplo_numerico] ! 0) \<and> aligned (s' ! 2)" by blast
    then have "idx (s' ! 2) = [0, 1, 2] \<and> aligned (s' ! 2)" by (simp only: ix)
    with run show ?thesis by blast
  qed
  have c6: "\<exists>s' r. binarizar_variables [ejemplo_numerico] 0 [''a''] [''b''] = (s', Inr r) \<and> idx (s' ! r) = [0, 1, 2] \<and> aligned (s' ! r)"
  proof -
    from ex_of_snd [OF binarizar_numerico_devuelve] obtain s' where run: "binarizar_variables [ejemplo_numerico] 0 [''a''] [''b''] = (s', Inr 1)"
      by (elim exE)
    from th run have "idx (s' ! 1) = idx ([ejemplo_numerico] ! 0) \<and> aligned (s' ! 1)" by blast
    then have "idx (s' ! 1) = [0, 1, 2] \<and> aligned (s' ! 1)" by (simp only: ix)
    with run show ?thesis by blast
  qed
  have c7: "\<exists>s' r. transformacion_raiz_cuadrada [ejemplo_numerico] 0 [''b''] = (s', Inr r) \<and> idx (s' ! r) = [0, 1, 2] \<and> aligned (s' ! r)"
  proof -
    from ex_of_snd [OF raiz_numerico_devuelve] obtain s' where run: "transformacion_raiz_cuadrada [ejemplo_numerico] 0 [''b''] = (s', Inr 1)"
      by (elim exE)
    from th run have "idx (s' ! 1) = idx ([ejemplo_numerico] ! 0) \<and> aligned (s' ! 1)" by blast
    then have "idx (s' ! 1) = [0, 1, 2] \<and> aligned (s' ! 1)" by (simp only: ix)
    with run show ?thesis by blast
  qed
  have c8: "\<exists>s' out r. ejecutar_modelo modelo_constante [ejemplo_numerico] 0 umbral_default = (s', out, Inr r) \<and> idx (s' ! r) = [0, 1, 2] \<and> aligned (s' ! r)"
  proof -
    from ex_of_snd_snd [OF ejecutar_numerico_devuelve] obtain s' out where run: "ejecutar_modelo modelo_constante [ejemplo_numerico] 0 umbral_default = (s', out, Inr 1)"
      by (elim exE)
    from th run have "idx (s' ! 1) = idx ([ejemplo_numerico] ! 0) \<and> aligned (s' ! 1)" by blast
    then have "idx (s' ! 1) = [0, 1, 2] \<and> aligned (s' ! 1)" by (simp only: ix)
    with run show ?thesis by blast
  qed
  from h1 h2 c1 c2 c3 c4 c5 c6 c7 c8 show ?thesis by (intro conjI)
qed

theorem copia_implicita_witness:
  "(0::nat) < length [ejemplo_numerico]
   \<and> (\<exists>s' r. dummificar_var_categorica [ejemplo_numerico] 0 ''z'' [''q''] ''OTROS'' = (s', Inr r) \<and> s' ! 0 = ejemplo_numerico \<and> 1 \<le> r \<and> r < length s')
   \<and> (\<exists>s' r. binarizar_variables [ejemplo_numerico] 0 [''a''] [''b''] = (s', Inr r) \<and> s' ! 0 = ejemplo_numerico \<and> 1 \<le> r \<and> r < length s')
   \<and> (\<exists>s' r. transformacion_raiz_cuadrada [ejemplo_numerico] 0 [''b''] = (s', Inr r) \<and> s' ! 0 = ejemplo_numerico \<and> 1 \<le> r \<and> r < length s')
   \<and> (\<exists>s' out r. ejecutar_modelo modelo_constante [ejemplo_numerico] 0 umbral_default = (s', out, Inr r) \<and> s' ! 0 = ejemplo_numerico \<and> 1 \<le> r \<and> r < length s')"
proof -
  have h1: "(0::nat) < length [ejemplo_numerico]" by simp
  note th = copia_implicita [where df = 0 and s = "[ejemplo_numerico]" and predict_proba = modelo_constante
      and columna = "''z''" and categorias_principales = "[''q'']"
      and referencia = "''OTROS''" and corte_cero = "[''a'']" and corte_uno = "[''b'']"
      and variables_raiz = "[''b'']" and umbral = umbral_default, OF h1]
  have c1: "\<exists>s' r. dummificar_var_categorica [ejemplo_numerico] 0 ''z'' [''q''] ''OTROS'' = (s', Inr r) \<and> s' ! 0 = ejemplo_numerico \<and> 1 \<le> r \<and> r < length s'"
  proof -
    from ex_of_snd [OF dummificar_numerico_devuelve] obtain s' where run: "dummificar_var_categorica [ejemplo_numerico] 0 ''z'' [''q''] ''OTROS'' = (s', Inr 2)"
      by (elim exE)
    from th run have "s' ! 0 = [ejemplo_numerico] ! 0 \<and> length [ejemplo_numerico] \<le> 2 \<and> 2 < length s'" by blast
    then have "s' ! 0 = ejemplo_numerico \<and> 1 \<le> (2::nat) \<and> 2 < length s'" by simp
    with run show ?thesis by blast
  qed
  have c2: "\<exists>s' r. binarizar_variables [ejemplo_numerico] 0 [''a''] [''b''] = (s', Inr r) \<and> s' ! 0 = ejemplo_numerico \<and> 1 \<le> r \<and> r < length s'"
  proof -
    from ex_of_snd [OF binarizar_numerico_devuelve] obtain s' where run: "binarizar_variables [ejemplo_numerico] 0 [''a''] [''b''] = (s', Inr 1)"
      by (elim exE)
    from th run have "s' ! 0 = [ejemplo_numerico] ! 0 \<and> length [ejemplo_numerico] \<le> 1 \<and> 1 < length s'" by blast
    then have "s' ! 0 = ejemplo_numerico \<and> 1 \<le> (1::nat) \<and> 1 < length s'" by simp
    with run show ?thesis by blast
  qed
  have c3: "\<exists>s' r. transformacion_raiz_cuadrada [ejemplo_numerico] 0 [''b''] = (s', Inr r) \<and> s' ! 0 = ejemplo_numerico \<and> 1 \<le> r \<and> r < length s'"
  proof -
    from ex_of_snd [OF raiz_numerico_devuelve] obtain s' where run: "transformacion_raiz_cuadrada [ejemplo_numerico] 0 [''b''] = (s', Inr 1)"
      by (elim exE)
    from th run have "s' ! 0 = [ejemplo_numerico] ! 0 \<and> length [ejemplo_numerico] \<le> 1 \<and> 1 < length s'" by blast
    then have "s' ! 0 = ejemplo_numerico \<and> 1 \<le> (1::nat) \<and> 1 < length s'" by simp
    with run show ?thesis by blast
  qed
  have c4: "\<exists>s' out r. ejecutar_modelo modelo_constante [ejemplo_numerico] 0 umbral_default = (s', out, Inr r) \<and> s' ! 0 = ejemplo_numerico \<and> 1 \<le> r \<and> r < length s'"
  proof -
    from ex_of_snd_snd [OF ejecutar_numerico_devuelve] obtain s' out where run: "ejecutar_modelo modelo_constante [ejemplo_numerico] 0 umbral_default = (s', out, Inr 1)"
      by (elim exE)
    from th run have "s' ! 0 = [ejemplo_numerico] ! 0 \<and> length [ejemplo_numerico] \<le> 1 \<and> 1 < length s'" by blast
    then have "s' ! 0 = ejemplo_numerico \<and> 1 \<le> (1::nat) \<and> 1 < length s'" by simp
    with run show ?thesis by blast
  qed
  from h1 c1 c2 c3 c4 show ?thesis by (intro conjI)
qed

end
